theory Spec2Isabelle
  imports Complex_Main "HOL-Library.Word"
begin

section \<open>Data model of the point-array geometry (ogrlinestring.cpp)\<close>

text \<open>
  A C \<^verbatim>\<open>double\<close> is modelled as a \<^typ>\<open>real\<close>: arithmetic is exact, and
  rounding, NaN and the infinities are outside the model. A C \<^verbatim>\<open>int\<close> that
  counts points is a \<^typ>\<open>nat\<close> (the source asserts it non-negative); where the
  source compares against \<^verbatim>\<open>std::numeric_limits<int>::max()\<close> the bound is
  written out.
\<close>

record OGRRawPoint =
  px :: real
  py :: real

text \<open>
  \<^verbatim>\<open>OGRSimpleCurve\<close>: the two dimension bits of \<^verbatim>\<open>flags\<close> (\<^verbatim>\<open>OGR_G_3D\<close>,
  \<^verbatim>\<open>OGR_G_MEASURED\<close>) are two booleans; a heap array is \<open>None\<close> for
  \<^verbatim>\<open>nullptr\<close> and otherwise the list of its allocated cells.
\<close>

record OGRSimpleCurve =
  flag3D :: bool
  flagMeasured :: bool
  nPointCount :: nat
  m_nPointCapacity :: nat
  paoPoints :: "OGRRawPoint list option"
  padfZ :: "real list option"
  padfM :: "real list option"

definition pt :: "OGRSimpleCurve \<Rightarrow> nat \<Rightarrow> OGRRawPoint" where
  \<comment> \<open>\<^verbatim>\<open>paoPoints[i]\<close>, an unchecked read\<close>
  "pt c i = the (paoPoints c) ! i"

definition zOf :: "OGRSimpleCurve \<Rightarrow> nat \<Rightarrow> real" where
  \<comment> \<open>\<^verbatim>\<open>padfZ[i]\<close>, an unchecked read\<close>
  "zOf c i = the (padfZ c) ! i"

definition mOf :: "OGRSimpleCurve \<Rightarrow> nat \<Rightarrow> real" where
  \<comment> \<open>\<^verbatim>\<open>padfM[i]\<close>, an unchecked read\<close>
  "mOf c i = the (padfM c) ! i"

section \<open>Green's formula sum, shared by get_LinearArea and isClockwise\<close>

definition greenTerm :: "(nat \<Rightarrow> OGRRawPoint) \<Rightarrow> nat \<Rightarrow> real" where
  \<comment> \<open>\<^verbatim>\<open>paoPoints[i].x * (paoPoints[i + 1].y - paoPoints[i - 1].y)\<close>\<close>
  "greenTerm p i = px (p i) * (py (p (i + 1)) - py (p (i - 1)))"

definition greenSum :: "(nat \<Rightarrow> OGRRawPoint) \<Rightarrow> nat \<Rightarrow> real" where
  \<comment> \<open>the three statements that build \<^verbatim>\<open>dfAreaSum\<close> / \<^verbatim>\<open>dfSum\<close>; only called with \<open>2 \<le> n\<close>\<close>
  "greenSum p n =
     (let s0 = px (p 0) * (py (p 1) - py (p (n - 1)));
          s1 = fold (\<lambda>i s. s + greenTerm p i) [1..<n - 1] s0
      in s1 + px (p (n - 1)) * (py (p 0) - py (p (n - 2))))"

section \<open>OGRLineString::isClockwise\<close>

definition pivotStep :: "(nat \<Rightarrow> OGRRawPoint) \<Rightarrow> nat \<Rightarrow> nat \<times> bool \<Rightarrow> nat \<times> bool" where
  \<comment> \<open>body of the loop that finds the lowest rightmost vertex; the state is \<open>(v, bUseFallback)\<close>\<close>
  "pivotStep p i st =
     (let v = fst st in
      if py (p i) < py (p v) \<or> (py (p i) = py (p v) \<and> px (p i) > px (p v))
      then (i, False)
      else if py (p i) = py (p v) \<and> px (p i) = px (p v)
      then (v, True)
      else st)"

definition findPivot :: "(nat \<Rightarrow> OGRRawPoint) \<Rightarrow> nat \<Rightarrow> nat \<times> bool" where
  \<comment> \<open>\<^verbatim>\<open>for (int i = 1; i < nPointCount - 1; i++)\<close> from \<open>v = 0\<close>, \<open>bUseFallback = false\<close>\<close>
  "findPivot p n = fold (pivotStep p) [1..<n - 1] (0, False)"

definition EPSILON :: real where
  "EPSILON = 1 / 100000"

definition epsilonEqual :: "real \<Rightarrow> real \<Rightarrow> real \<Rightarrow> bool" where
  "epsilonEqual a b eps = (\<bar>a - b\<bar> < eps)"

definition prevIndex :: "nat \<Rightarrow> nat \<Rightarrow> nat" where
  \<comment> \<open>\<^verbatim>\<open>next = v - 1; if (next < 0) next = nPointCount - 1 - 1;\<close>\<close>
  "prevIndex n v = (if v = 0 then n - 1 - 1 else v - 1)"

definition nextIndex :: "nat \<Rightarrow> nat \<Rightarrow> nat" where
  \<comment> \<open>\<^verbatim>\<open>next = v + 1; if (next >= nPointCount - 1) next = 0;\<close>\<close>
  "nextIndex n v = (if v + 1 \<ge> n - 1 then 0 else v + 1)"

definition nearPivot :: "(nat \<Rightarrow> OGRRawPoint) \<Rightarrow> nat \<Rightarrow> nat \<Rightarrow> bool" where
  "nearPivot p k v =
     (epsilonEqual (px (p k)) (px (p v)) EPSILON \<and> epsilonEqual (py (p k)) (py (p v)) EPSILON)"

definition crossproduct :: "(nat \<Rightarrow> OGRRawPoint) \<Rightarrow> nat \<Rightarrow> nat \<Rightarrow> real" where
  \<comment> \<open>\<^verbatim>\<open>dx1 * dy0 - dx0 * dy1\<close>, \<open>0\<close> the previous and \<open>1\<close> the following vertex\<close>
  "crossproduct p n v =
     (let dx0 = px (p (prevIndex n v)) - px (p v);
          dy0 = py (p (prevIndex n v)) - py (p v);
          dx1 = px (p (nextIndex n v)) - px (p v);
          dy1 = py (p (nextIndex n v)) - py (p v)
      in dx1 * dy0 - dx0 * dy1)"

definition isClockwise :: "OGRSimpleCurve \<Rightarrow> bool" where
  "isClockwise c =
     (let n = nPointCount c; p = pt c in
      if n < 2 then True
      else
        let v = fst (findPivot p n);
            bUseFallback = (snd (findPivot p n) \<or> nearPivot p (prevIndex n v) v
                            \<or> nearPivot p (nextIndex n v) v)
        in if \<not> bUseFallback \<and> crossproduct p n v > 0 then False
           else if \<not> bUseFallback \<and> crossproduct p n v < 0 then True
           else greenSum p n < 0)"

section \<open>OGRSimpleCurve::get_LinearArea\<close>




definition mkCurve :: "(real \<times> real) list \<Rightarrow> OGRSimpleCurve" where
  \<comment> \<open>a 2D curve holding exactly the given vertices (no array at all when there are none)\<close>
  "mkCurve xs =
     \<lparr> flag3D = False, flagMeasured = False, nPointCount = length xs,
       m_nPointCapacity = length xs,
       paoPoints = (if xs = [] then None else Some (map (\<lambda>(a, b). \<lparr> px = a, py = b \<rparr>) xs)),
       padfZ = None, padfM = None \<rparr>"

section \<open>OGRSimpleCurve::reversePoints\<close>




section \<open>OGRSimpleCurve::Value and the accessors it calls\<close>










definition dfSegLength :: "OGRSimpleCurve \<Rightarrow> nat \<Rightarrow> real" where
  "dfSegLength c i =
     (let dfDeltaX = px (pt c (i + 1)) - px (pt c i);
          dfDeltaY = py (pt c (i + 1)) - py (pt c i)
      in sqrt (dfDeltaX * dfDeltaX + dfDeltaY * dfDeltaY))"





section \<open>OGRSimpleCurve::setNumPoints\<close>

text \<open>
  Whether an allocation succeeds is not decided by the program: the outcome of each
  allocation site is an input, as is the content of a cell that was allocated but never
  written. \<^verbatim>\<open>VSI_REALLOC_VERBOSE\<close> returns null on failure and leaves the old block
  alone; on success the block has the requested number of cells and keeps the old content
  that fits.
\<close>

record AllocEnv =
  okPoints :: bool
  okZ :: bool
  okM :: bool
  okMake3D :: bool
  okAddM :: bool
  okScratch :: bool
  fresh :: real

definition vsiRealloc :: "bool \<Rightarrow> 'a \<Rightarrow> 'a list option \<Rightarrow> nat \<Rightarrow> 'a list option" where
  "vsiRealloc ok junk arr n =
     (if ok
      then Some (case arr of None \<Rightarrow> replicate n junk
                 | Some xs \<Rightarrow> take n xs @ replicate (n - length xs) junk)
      else None)"

definition memsetZero :: "'a \<Rightarrow> 'a list \<Rightarrow> nat \<Rightarrow> nat \<Rightarrow> 'a list" where
  "memsetZero z xs a k = take a xs @ replicate (min k (length xs - a)) z @ drop (a + k) xs"

definition INT_MAX :: nat where
  "INT_MAX = 2147483647"

definition sizeofRawPoint :: nat where
  "sizeofRawPoint = 16"

definition zeroPoint :: OGRRawPoint where
  "zeroPoint = \<lparr> px = 0, py = 0 \<rparr>"

definition newCapacity :: "OGRSimpleCurve \<Rightarrow> nat \<Rightarrow> nat" where
  "newCapacity c nNewPointCount =
     (if nPointCount c = 0
         \<or> int nNewPointCount > int (INT_MAX div sizeofRawPoint) - int (nNewPointCount div 3)
      then nNewPointCount
      else nNewPointCount + nNewPointCount div 3)"

definition freeIfEmpty :: "OGRSimpleCurve \<Rightarrow> OGRSimpleCurve" where
  "freeIfEmpty c =
     (if nPointCount c = 0 \<and> paoPoints c \<noteq> None
      then c\<lparr> paoPoints := None, padfZ := None, padfM := None, m_nPointCapacity := 0 \<rparr>
      else c)"

text \<open>
  The branch \<^verbatim>\<open>if (nNewPointCount > m_nPointCapacity)\<close> of setNumPoints. Each failed
  reallocation returns false with whatever was reallocated before it kept.
\<close>

definition growArrays :: "AllocEnv \<Rightarrow> OGRSimpleCurve \<Rightarrow> nat \<Rightarrow> bool \<times> OGRSimpleCurve" where
  "growArrays env c nNewPointCount =
     (if nNewPointCount > INT_MAX div sizeofRawPoint then (False, c)
      else
        let nNewCapacity = newCapacity c nNewPointCount;
            c1 = freeIfEmpty c
        in case vsiRealloc (okPoints env) \<lparr> px = fresh env, py = fresh env \<rparr> (paoPoints c1) nNewCapacity of
             None \<Rightarrow> (False, c1)
           | Some paoNewPoints \<Rightarrow>
               let c2 = c1\<lparr> paoPoints := Some paoNewPoints \<rparr> in
               (case (if flag3D c2
                      then map_option (\<lambda>z. c2\<lparr> padfZ := Some z \<rparr>)
                             (vsiRealloc (okZ env) (fresh env) (padfZ c2) nNewCapacity)
                      else Some c2) of
                  None \<Rightarrow> (False, c2)
                | Some c3 \<Rightarrow>
                    (case (if flagMeasured c3
                           then map_option (\<lambda>m. c3\<lparr> padfM := Some m \<rparr>)
                                  (vsiRealloc (okM env) (fresh env) (padfM c3) nNewCapacity)
                           else Some c3) of
                       None \<Rightarrow> (False, c3)
                     | Some c4 \<Rightarrow> (True, c4\<lparr> m_nPointCapacity := nNewCapacity \<rparr>))))"

text \<open>
  The branch \<^verbatim>\<open>if (nNewPointCount > nPointCount && bZeroizeNewContent)\<close>: the three
  \<^verbatim>\<open>memset\<close> calls on the cells from \<^verbatim>\<open>nPointCount\<close> on.
\<close>

definition zeroize :: "OGRSimpleCurve \<Rightarrow> nat \<Rightarrow> OGRSimpleCurve" where
  "zeroize c nNewPointCount =
     (let k = nNewPointCount - nPointCount c;
          c1 = c\<lparr> paoPoints := map_option (\<lambda>ps. memsetZero zeroPoint ps (nPointCount c) k) (paoPoints c) \<rparr>;
          c2 = (if flag3D c1
                then c1\<lparr> padfZ := map_option (\<lambda>zs. memsetZero 0 zs (nPointCount c) k) (padfZ c1) \<rparr>
                else c1)
      in if flagMeasured c2
         then c2\<lparr> padfM := map_option (\<lambda>ms. memsetZero 0 ms (nPointCount c) k) (padfM c2) \<rparr>
         else c2)"

definition setNumPoints :: "AllocEnv \<Rightarrow> OGRSimpleCurve \<Rightarrow> nat \<Rightarrow> bool \<Rightarrow> bool \<times> OGRSimpleCurve" where
  "setNumPoints env c nNewPointCount bZeroizeNewContent =
     (case (if nNewPointCount > m_nPointCapacity c then growArrays env c nNewPointCount
            else (True, c)) of
        (False, c') \<Rightarrow> (False, c')
      | (True, c') \<Rightarrow>
          let c'' = (if nNewPointCount > nPointCount c' \<and> bZeroizeNewContent
                     then zeroize c' nNewPointCount else c')
          in (True, c''\<lparr> nPointCount := nNewPointCount \<rparr>))"

section \<open>OGRSimpleCurve::setPoints and OGRSimpleCurve::transform\<close>

datatype OGRErr = OGRERR_NONE | OGRERR_NOT_ENOUGH_MEMORY | OGRERR_FAILURE | OGRERR_CORRUPT_DATA

definition Make2D :: "OGRSimpleCurve \<Rightarrow> OGRSimpleCurve" where
  "Make2D c = c\<lparr> padfZ := None, flag3D := False \<rparr>"

definition Make3D :: "AllocEnv \<Rightarrow> OGRSimpleCurve \<Rightarrow> bool \<times> OGRSimpleCurve" where
  "Make3D env c =
     (if padfZ c = None
      then (if okMake3D env
            then (True, c\<lparr> padfZ := Some (replicate (max 1 (m_nPointCapacity c)) 0), flag3D := True \<rparr>)
            else (False, c\<lparr> flag3D := False \<rparr>))
      else (True, c\<lparr> flag3D := True \<rparr>))"

definition RemoveM :: "OGRSimpleCurve \<Rightarrow> OGRSimpleCurve" where
  "RemoveM c = c\<lparr> padfM := None, flagMeasured := False \<rparr>"

definition AddM :: "AllocEnv \<Rightarrow> OGRSimpleCurve \<Rightarrow> bool \<times> OGRSimpleCurve" where
  "AddM env c =
     (if padfM c = None
      then (if okAddM env
            then (True, c\<lparr> padfM := Some (replicate (max 1 (m_nPointCapacity c)) 0),
                           flagMeasured := True \<rparr>)
            else (False, c\<lparr> flagMeasured := False \<rparr>))
      else (True, c\<lparr> flagMeasured := True \<rparr>))"

definition memcpyInto :: "'a list \<Rightarrow> 'a list \<Rightarrow> nat \<Rightarrow> 'a list" where
  \<comment> \<open>\<^verbatim>\<open>memcpy(dst, src, n * sizeof)\<close>\<close>
  "memcpyInto dst src n = take n src @ drop n dst"

definition assignXY :: "real list \<Rightarrow> real list \<Rightarrow> nat \<Rightarrow> OGRRawPoint list \<Rightarrow> OGRRawPoint list" where
  \<comment> \<open>\<^verbatim>\<open>for (i < nPointsIn) { paoPoints[i].x = padfX[i]; paoPoints[i].y = padfY[i]; }\<close>\<close>
  "assignXY padfX padfY nPointsIn ps =
     fold (\<lambda>i qs. qs[i := \<lparr> px = padfX ! i, py = padfY ! i \<rparr>]) [0..<nPointsIn] ps"

text \<open>
  The overload of \<^verbatim>\<open>setPoints\<close> that \<^verbatim>\<open>transform\<close> calls takes the X, Y and Z arrays
  (lines 1192 to 1224): it sets the dimension from the Z array, sets the number of points
  and copies X, Y and Z. It does not read or write the M array and the measured flag.
\<close>

definition setPoints ::
  "AllocEnv \<Rightarrow> OGRSimpleCurve \<Rightarrow> nat \<Rightarrow> real list \<Rightarrow> real list \<Rightarrow> real list option
     \<Rightarrow> bool \<times> OGRSimpleCurve" where
  "setPoints env c nPointsIn padfX padfY padfZIn =
     (case (if padfZIn = None then (True, Make2D c) else Make3D env c) of
        (False, c1) \<Rightarrow> (False, c1)
      | (True, c1) \<Rightarrow>
          (case setNumPoints env c1 nPointsIn False of
             (False, c2) \<Rightarrow> (False, c2)
           | (True, c2) \<Rightarrow>
               let c3 = c2\<lparr> paoPoints := map_option (assignXY padfX padfY nPointsIn) (paoPoints c2) \<rparr>;
                   c4 = (if padfZ c3 \<noteq> None \<and> padfZIn \<noteq> None \<and> nPointsIn \<noteq> 0
                         then c3\<lparr> padfZ := Some (memcpyInto (the (padfZ c3)) (the padfZIn) nPointsIn) \<rparr>
                         else c3)
               in (True, c4)))"

text \<open>
  The coordinate transformation is a collaborator: \<^verbatim>\<open>poCT->Transform\<close> rewrites the
  three planes of the scratch buffer in place and fills \<^verbatim>\<open>pabSuccess\<close>. It is given
  as a function from the points handed in and an index to the transformed point and the
  success flag at that index. The configuration option
  \<^verbatim>\<open>OGR_ENABLE_PARTIAL_REPROJECTION\<close> is an optional string, and \<^verbatim>\<open>CPLTestBool\<close>
  (not among the source files) is a parameter. The error messages and the assignment of
  the target spatial reference are not modelled.
\<close>

type_synonym CoordTransform = "(real \<times> real \<times> real) list \<Rightarrow> nat \<Rightarrow> (real \<times> real \<times> real) \<times> bool"

definition fillXYZ :: "OGRSimpleCurve \<Rightarrow> real list \<Rightarrow> real list" where
  \<comment> \<open>the loop that copies the coordinates into the scratch buffer \<^verbatim>\<open>xyz\<close>\<close>
  "fillXYZ c xyz0 =
     (let n = nPointCount c in
      fold (\<lambda>i xyz. xyz[i := px (pt c i), i + n := py (pt c i),
                        i + n * 2 := (if padfZ c \<noteq> None then zOf c i else 0)])
           [0..<n] xyz0)"

definition planeTriples :: "real list \<Rightarrow> nat \<Rightarrow> (real \<times> real \<times> real) list" where
  "planeTriples xyz n = map (\<lambda>i. (xyz ! i, xyz ! (i + n), xyz ! (i + n * 2))) [0..<n]"

definition Transform :: "CoordTransform \<Rightarrow> nat \<Rightarrow> real list \<Rightarrow> real list \<times> bool list" where
  "Transform poCT n xyz =
     (let pts = planeTriples xyz n;
          out = map (\<lambda>i. fst (poCT pts i)) [0..<n]
      in (map fst out @ map (\<lambda>t. fst (snd t)) out @ map (\<lambda>t. snd (snd t)) out,
          map (\<lambda>i. snd (poCT pts i)) [0..<n]))"

definition partialEnabled :: "string option \<Rightarrow> (string \<Rightarrow> bool) \<Rightarrow> bool" where
  "partialEnabled pszEnablePartialReprojection CPLTestBool =
     (case pszEnablePartialReprojection of None \<Rightarrow> False | Some v \<Rightarrow> CPLTestBool v)"

text \<open>
  One iteration of the loop over \<^verbatim>\<open>pabSuccess\<close>: the state is the buffer and \<^verbatim>\<open>j\<close>,
  and \<open>None\<close> once the loop has returned \<^verbatim>\<open>OGRERR_FAILURE\<close>.
\<close>

definition compactStep ::
  "bool \<Rightarrow> nat \<Rightarrow> bool list \<Rightarrow> nat \<Rightarrow> (real list \<times> nat) option \<Rightarrow> (real list \<times> nat) option" where
  "compactStep enabled n pabSuccess i st =
     (case st of
        None \<Rightarrow> None
      | Some (xyz, j) \<Rightarrow>
          if pabSuccess ! i
          then Some (xyz[j := xyz ! i, j + n := xyz ! (i + n), j + 2 * n := xyz ! (i + 2 * n)], j + 1)
          else if enabled then Some (xyz, j) else None)"

definition transform ::
  "AllocEnv \<Rightarrow> string option \<Rightarrow> (string \<Rightarrow> bool) \<Rightarrow> CoordTransform \<Rightarrow> OGRSimpleCurve
     \<Rightarrow> OGRErr \<times> OGRSimpleCurve" where
  "transform env pszEnablePartialReprojection CPLTestBool poCT c =
     (let n = nPointCount c in
      if \<not> okScratch env then (OGRERR_NOT_ENOUGH_MEMORY, c)
      else
        let xyz = fillXYZ c (replicate (n * 3) (fresh env));
            (xyz1, pabSuccess) = Transform poCT n xyz
        in case fold (compactStep (partialEnabled pszEnablePartialReprojection CPLTestBool)
                        n pabSuccess) [0..<n] (Some (xyz1, 0)) of
             None \<Rightarrow> (OGRERR_FAILURE, c)
           | Some (xyz2, j) \<Rightarrow>
               if j = 0 \<and> n \<noteq> 0 then (OGRERR_FAILURE, c)
               else (OGRERR_NONE,
                     snd (setPoints env c j xyz2 (drop n xyz2)
                            (if padfZ c \<noteq> None then Some (drop (n * 2) xyz2) else None))))"

section \<open>OGRSimpleCurve::segmentize\<close>

text \<open>
  \<^verbatim>\<open>DoubleToIntClamp\<close>: the NaN case cannot arise for a real; the cast to int truncates
  towards zero.
\<close>

definition DoubleToIntClamp :: "real \<Rightarrow> int" where
  "DoubleToIntClamp dfValue =
     (if dfValue \<ge> 2147483647 then 2147483647
      else if dfValue \<le> - 2147483648 then - 2147483648
      else (if dfValue \<ge> 0 then \<lfloor>dfValue\<rfloor> else \<lceil>dfValue\<rceil>))"

definition REL_EPSILON_LENGTH_SQUARE :: real where
  "REL_EPSILON_LENGTH_SQUARE = 1 / 100000"

definition REL_EPSILON_ROUND :: real where
  "REL_EPSILON_ROUND = 1 / 100"

definition kMax :: int where
  "kMax = 134217728"


definition dfX :: "OGRSimpleCurve \<Rightarrow> nat \<Rightarrow> real" where
  "dfX c i = px (pt c (i + 1)) - px (pt c i)"

definition dfY :: "OGRSimpleCurve \<Rightarrow> nat \<Rightarrow> real" where
  "dfY c i = py (pt c (i + 1)) - py (pt c i)"

definition dfSquareDist :: "OGRSimpleCurve \<Rightarrow> nat \<Rightarrow> real" where
  "dfSquareDist c i = dfX c i * dfX c i + dfY c i * dfY c i"

definition needsSplit :: "OGRSimpleCurve \<Rightarrow> real \<Rightarrow> nat \<Rightarrow> bool" where
  "needsSplit c dfMaxLength i =
     (dfSquareDist c i - dfMaxLength * dfMaxLength
        > REL_EPSILON_LENGTH_SQUARE * (dfMaxLength * dfMaxLength))"

definition nIntermediatePoints :: "OGRSimpleCurve \<Rightarrow> real \<Rightarrow> nat \<Rightarrow> int" where
  "nIntermediatePoints c dfMaxLength i =
     DoubleToIntClamp
       (of_int \<lfloor>sqrt (dfSquareDist c i / (dfMaxLength * dfMaxLength)) - REL_EPSILON_ROUND\<rfloor>)"

text \<open>
  First pass: one iteration of the loop that computes the new number of points. The state
  is \<^verbatim>\<open>nNewPointCount\<close>, and \<open>None\<close> once the loop has returned false ("Too many
  points in a segment").
\<close>

definition countStep :: "OGRSimpleCurve \<Rightarrow> real \<Rightarrow> nat \<Rightarrow> int option \<Rightarrow> int option" where
  "countStep c dfMaxLength i st =
     (case st of
        None \<Rightarrow> None
      | Some nNewPointCount \<Rightarrow>
          if i = nPointCount c - 1 then Some (nNewPointCount + 1)
          else if needsSplit c dfMaxLength i
          then (if nNewPointCount + 1 > kMax \<or> nIntermediatePoints c dfMaxLength i > kMax
                then None
                else Some (nNewPointCount + 1 + nIntermediatePoints c dfMaxLength i))
          else Some (nNewPointCount + 1))"

definition countPoints :: "OGRSimpleCurve \<Rightarrow> real \<Rightarrow> int option" where
  "countPoints c dfMaxLength =
     fold (countStep c dfMaxLength) [0..<nPointCount c] (Some 0)"

text \<open>
  Second pass: the vertices written for segment \<open>i\<close>, and one iteration of the loop. The
  new arrays are filled from the left, so the state is the three lists written so far;
  Z and M of an intermediate vertex are copied from the start vertex of its segment.
\<close>

definition intermediates :: "OGRSimpleCurve \<Rightarrow> real \<Rightarrow> nat \<Rightarrow> OGRRawPoint list" where
  "intermediates c dfMaxLength i =
     (let nInter = nIntermediatePoints c dfMaxLength i;
          dfRatioX = dfX c i / (real_of_int nInter + 1);
          dfRatioY = dfY c i / (real_of_int nInter + 1)
      in map (\<lambda>j. \<lparr> px = px (pt c i) + real j * dfRatioX,
                     py = py (pt c i) + real j * dfRatioY \<rparr>)
             [1..<Suc (nat nInter)])"

definition fillStep ::
  "OGRSimpleCurve \<Rightarrow> real \<Rightarrow> nat \<Rightarrow> OGRRawPoint list \<times> real list \<times> real list
     \<Rightarrow> OGRRawPoint list \<times> real list \<times> real list" where
  "fillStep c dfMaxLength i st =
     (case st of (ps, zs, ms) \<Rightarrow>
        let ps1 = ps @ [pt c i];
            zs1 = (if padfZ c \<noteq> None then zs @ [zOf c i] else zs);
            ms1 = (if padfM c \<noteq> None then ms @ [mOf c i] else ms)
        in if i = nPointCount c - 1 then (ps1, zs1, ms1)
           else if needsSplit c dfMaxLength i
           then
             let k = nat (nIntermediatePoints c dfMaxLength i)
             in (ps1 @ intermediates c dfMaxLength i,
                 (if padfZ c \<noteq> None then zs1 @ replicate k (zOf c i) else zs1),
                 (if padfM c \<noteq> None then ms1 @ replicate k (mOf c i) else ms1))
           else (ps1, zs1, ms1))"

text \<open>
  The part of segmentize after the orientation test: both passes and the allocation of
  the new arrays (an allocation that fails returns false and leaves the curve alone).
\<close>

definition segmentizeBody :: "AllocEnv \<Rightarrow> OGRSimpleCurve \<Rightarrow> real \<Rightarrow> bool \<times> OGRSimpleCurve" where
  "segmentizeBody env c dfMaxLength =
     (case countPoints c dfMaxLength of
        None \<Rightarrow> (False, c)
      | Some nNewPointCount \<Rightarrow>
          if int (nPointCount c) = nNewPointCount then (True, c)
          else if \<not> okPoints env then (False, c)
          else if padfZ c \<noteq> None \<and> \<not> okZ env then (False, c)
          else if padfM c \<noteq> None \<and> \<not> okM env then (False, c)
          else
            case fold (fillStep c dfMaxLength) [0..<nPointCount c] ([], [], []) of
              (ps, zs, ms) \<Rightarrow>
                (True, c\<lparr> paoPoints := Some ps, nPointCount := length ps,
                           m_nPointCapacity := length ps,
                           padfZ := (if padfZ c \<noteq> None then Some zs else None),
                           padfM := (if padfM c \<noteq> None then Some ms else None) \<rparr>))"


section \<open>OGRFlatGeobufLayer::parseFeature: the property stream\<close>

text \<open>
  The property bytes of a feature record are a sequence of tuples: a little-endian
  16-bit column index followed by a value whose layout is given by the type of that
  column. The loop of \<^verbatim>\<open>parseFeature\<close> over \<^verbatim>\<open>properties->data()\<close> is embedded here; the
  offset is a natural number (it never exceeds the size of the buffer, which FlatBuffers
  keeps below 2^31, so the 32-bit \<^verbatim>\<open>uoffset_t\<close> arithmetic does not wrap).

  Modelled from the spec: \<^verbatim>\<open>OGRField\<close>, \<^verbatim>\<open>OGR_RawField_IsUnset\<close> and
  \<^verbatim>\<open>OGR_RawField_SetUnset\<close> (ogr_core.h) and \<^verbatim>\<open>CPLErrorInvalidSize\<close> (cplerrors.h) are
  not among the source files. A raw field is either unset, null, or holds one value (a
  double as its 64 bits); a size violation is reported as corrupt data. The date parsers
  of ogrutils.cpp, the conversions of a \<^verbatim>\<open>uint64_t\<close> and of a \<^verbatim>\<open>float\<close> to \<^verbatim>\<open>double\<close>, and
  the outcome of \<^verbatim>\<open>VSI_MALLOC_VERBOSE\<close> are inputs of the model.
\<close>

type_synonym byte = "8 word"

datatype ColumnType =
  CT_Byte | CT_UByte | CT_Bool | CT_Short | CT_UShort | CT_Int | CT_UInt | CT_Long | CT_ULong | CT_Float | CT_Double
  | CT_String | CT_Json | CT_DateTime | CT_Binary

datatype OGRField =
  Unset
  | FNull
  | FInteger int
  | FInteger64 int
  | FReal "64 word"
  | FString "byte list"
  | FBinary "byte list"
  | FDate nat

record DecodeCtx =
  columns :: "ColumnType list option"
  isIgnored :: "nat \<Rightarrow> bool"
  mallocOK :: "nat \<Rightarrow> bool"
  uint64ToDouble :: "nat \<Rightarrow> 64 word"
  floatToDouble :: "32 word \<Rightarrow> 64 word"
  OGRParseDateTimeYYYYMMDDTHHMMSSZ :: "byte list \<Rightarrow> OGRField option"
  OGRParseDateTimeYYYYMMDDTHHMMSSsssZ :: "byte list \<Rightarrow> OGRField option"
  OGRParseDate :: "byte list \<Rightarrow> OGRField option"

definition CPLErrorInvalidSize :: OGRErr where
  "CPLErrorInvalidSize = OGRERR_CORRUPT_DATA"

text \<open>
  \<^verbatim>\<open>memcpy\<close> of w bytes at an offset followed by \<^verbatim>\<open>CPL_LSBPTR\<close>: the little-endian
  value of the bytes.
\<close>

definition leNat :: "byte list \<Rightarrow> nat \<Rightarrow> nat \<Rightarrow> nat" where
  "leNat d off w = foldr (\<lambda>b acc. unat b + 256 * acc) (take w (drop off d)) 0"

text \<open>
  The cases of the \<^verbatim>\<open>switch (type)\<close> for the fixed-size column types have one shape:
  check that \<^verbatim>\<open>sizeof\<close> bytes remain, store the value unless the field is ignored,
  advance the offset. \<^verbatim>\<open>fixedWidth\<close> is the \<^verbatim>\<open>sizeof\<close> of the case and \<^verbatim>\<open>fixedField\<close>
  the value stored.
\<close>

definition fixedWidth :: "ColumnType \<Rightarrow> nat option" where
  "fixedWidth t =
     (case t of
        CT_Bool \<Rightarrow> Some 1 | CT_Byte \<Rightarrow> Some 1 | CT_UByte \<Rightarrow> Some 1
      | CT_Short \<Rightarrow> Some 2 | CT_UShort \<Rightarrow> Some 2
      | CT_Int \<Rightarrow> Some 4 | CT_UInt \<Rightarrow> Some 4
      | CT_Long \<Rightarrow> Some 8 | CT_ULong \<Rightarrow> Some 8
      | CT_Float \<Rightarrow> Some 4 | CT_Double \<Rightarrow> Some 8
      | _ \<Rightarrow> None)"

definition fixedField :: "DecodeCtx \<Rightarrow> ColumnType \<Rightarrow> byte list \<Rightarrow> nat \<Rightarrow> OGRField" where
  "fixedField ctx t d off =
     (case t of
        CT_Bool \<Rightarrow> FInteger (uint (d ! off))
      | CT_Byte \<Rightarrow> FInteger (sint (d ! off))
      | CT_UByte \<Rightarrow> FInteger (uint (d ! off))
      | CT_Short \<Rightarrow> FInteger (sint (word_of_nat (leNat d off 2) :: 16 word))
      | CT_UShort \<Rightarrow> FInteger (int (leNat d off 2))
      | CT_Int \<Rightarrow> FInteger (sint (word_of_nat (leNat d off 4) :: 32 word))
      | CT_UInt \<Rightarrow> FInteger64 (int (leNat d off 4))
      | CT_Long \<Rightarrow> FInteger64 (sint (word_of_nat (leNat d off 8) :: 64 word))
      | CT_ULong \<Rightarrow> FReal (uint64ToDouble ctx (leNat d off 8))
      | CT_Float \<Rightarrow> FReal (floatToDouble ctx (word_of_nat (leNat d off 4)))
      | CT_Double \<Rightarrow> FReal (word_of_nat (leNat d off 8))
      | _ \<Rightarrow> Unset)"

definition ParseDateTime :: "DecodeCtx \<Rightarrow> byte list \<Rightarrow> OGRField option" where
  "ParseDateTime ctx sInput =
     (case OGRParseDateTimeYYYYMMDDTHHMMSSZ ctx sInput of
        Some f \<Rightarrow> Some f
      | None \<Rightarrow> OGRParseDateTimeYYYYMMDDTHHMMSSsssZ ctx sInput)"

text \<open>
  The DateTime case: \<^verbatim>\<open>ParseDateTime\<close>, then \<^verbatim>\<open>OGRParseDate\<close>, and when both fail
  \<^verbatim>\<open>OGR_RawField_SetUnset\<close>.
\<close>

definition parseDateField :: "DecodeCtx \<Rightarrow> byte list \<Rightarrow> OGRField" where
  "parseDateField ctx s =
     (case ParseDateTime ctx s of
        Some f \<Rightarrow> f
      | None \<Rightarrow> (case OGRParseDate ctx s of Some f \<Rightarrow> f | None \<Rightarrow> Unset))"

definition parseValue ::
  "DecodeCtx \<Rightarrow> byte list \<Rightarrow> ColumnType \<Rightarrow> nat \<Rightarrow> nat \<Rightarrow> OGRField list
     \<Rightarrow> OGRErr + nat \<times> OGRField list" where
  "parseValue ctx d t i offset raw =
     (let size = length d in
      case fixedWidth t of
        Some w \<Rightarrow>
          if offset + w > size then Inl CPLErrorInvalidSize
          else Inr (offset + w,
                    if \<not> isIgnored ctx i then raw[i := fixedField ctx t d offset] else raw)
      | None \<Rightarrow>
          if offset + 4 > size then Inl CPLErrorInvalidSize
          else
            let len = leNat d offset 4; offset1 = offset + 4 in
            if t = CT_DateTime then
              if len > size - offset1 \<or> len > 32 then Inl CPLErrorInvalidSize
              else Inr (offset1 + len,
                        if \<not> isIgnored ctx i
                        then raw[i := parseDateField ctx (take len (drop offset1 d))]
                        else raw)
            else if t = CT_Binary then
              if len > 2147483647 \<or> len > size - offset1 then Inl CPLErrorInvalidSize
              else if \<not> isIgnored ctx i
              then (if \<not> mallocOK ctx (if len \<noteq> 0 then len else 1)
                    then Inl OGRERR_NOT_ENOUGH_MEMORY
                    else Inr (offset1 + len, raw[i := FBinary (take len (drop offset1 d))]))
              else Inr (offset1 + len, raw)
            else
              if len > size - offset1 then Inl CPLErrorInvalidSize
              else if \<not> isIgnored ctx i
              then (if \<not> mallocOK ctx (len + 1)
                    then Inl OGRERR_NOT_ENOUGH_MEMORY
                    else Inr (offset1 + len, raw[i := FString (take len (drop offset1 d))]))
              else Inr (offset1 + len, raw))"

text \<open>
  One iteration of \<^verbatim>\<open>while (offset + 1 < size)\<close>: the column index, the checks on it and
  on the raw field (lines 1191 to 1221), then the \<^verbatim>\<open>switch\<close>.
\<close>

definition parseTuple ::
  "DecodeCtx \<Rightarrow> byte list \<Rightarrow> nat \<times> OGRField list \<Rightarrow> OGRErr + nat \<times> OGRField list" where
  "parseTuple ctx d st =
     (let offset = fst st; raw = snd st; size = length d in
      if offset + 2 > size then Inl CPLErrorInvalidSize
      else
        let i = leNat d offset 2 in
        case columns ctx of
          None \<Rightarrow> Inl OGRERR_CORRUPT_DATA
        | Some cols \<Rightarrow>
            if i \<ge> length cols then Inl OGRERR_CORRUPT_DATA
            else if raw ! i \<noteq> Unset then Inl OGRERR_CORRUPT_DATA
            else parseValue ctx d (cols ! i) i (offset + 2) raw)"

function parseLoop ::
  "DecodeCtx \<Rightarrow> byte list \<Rightarrow> nat \<times> OGRField list \<Rightarrow> OGRErr + OGRField list" where
  "parseLoop ctx d st =
     (if fst st + 1 < length d
      then (case parseTuple ctx d st of
              Inl e \<Rightarrow> Inl e
            | Inr st' \<Rightarrow> parseLoop ctx d st')
      else Inr (snd st))"
  by pat_completeness auto
termination
proof (relation "measure (\<lambda>(ctx, d, st). length d - fst st)")
  show "wf (measure (\<lambda>(ctx, d, st). length d - fst st))" by simp
next
  fix ctx d st st'
  assume a: "fst st + 1 < length d" "parseTuple ctx d st = Inr st'"
  from a(2) have "fst st < fst st' \<and> fst st' \<le> length d"
    by (cases st')
       (auto simp: parseTuple_def parseValue_def Let_def split: option.splits if_splits)
  with a(1) show "((ctx, d, st'), (ctx, d, st)) \<in> measure (\<lambda>(ctx, d, st). length d - fst st)"
    by (simp, arith)
qed

declare parseLoop.simps [simp del]

text \<open>
  The part of \<^verbatim>\<open>parseFeature\<close> from \<^verbatim>\<open>feature->properties()\<close> to the final
  \<^verbatim>\<open>return OGRERR_NONE\<close>; \<^verbatim>\<open>Inr\<close> carries the raw fields of the decoded feature.
\<close>

definition parseProperties ::
  "DecodeCtx \<Rightarrow> byte list option \<Rightarrow> OGRField list \<Rightarrow> OGRErr + OGRField list" where
  "parseProperties ctx properties raw =
     (case properties of
        None \<Rightarrow> Inr raw
      | Some d \<Rightarrow>
          if length d > 0 \<and> length d < 2 + 1 then Inl CPLErrorInvalidSize
          else parseLoop ctx d (0, raw))"

section \<open>The FlatGeobuf writer and the reopening of its file\<close>

text \<open>
  The members of \<^verbatim>\<open>OGRFlatGeobufLayer\<close> that \<^verbatim>\<open>writeHeader\<close>, \<^verbatim>\<open>ICreateFeature\<close>,
  \<^verbatim>\<open>CreateFinalFile\<close> and \<^verbatim>\<open>Open\<close> read or write are the fields of a record; a file
  handle is the bytes of its file, the position of the handle and the number of bytes the
  storage still accepts, so that a short write is a value of the model.

  Modelled from the spec: the FlatBuffers schema (header_generated.h,
  feature_generated.h), \<^verbatim>\<open>GeometryWriter\<close>, \<^verbatim>\<open>PackedRTree\<close>, the constants
  \<^verbatim>\<open>magicbytes\<close>, \<^verbatim>\<open>header_max_buffer_size\<close> and \<^verbatim>\<open>feature_max_buffer_size\<close>, and the OGR
  classes \<^verbatim>\<open>OGRFeature\<close>, \<^verbatim>\<open>OGRGeometry\<close> and \<^verbatim>\<open>OGREnvelope\<close> are not among the source
  files. The container is an 8-byte magic, a header block prefixed by its 4-byte size,
  an optional index block and the feature records. The header is a record of the values
  \<^verbatim>\<open>CreateHeaderDirect\<close> receives (of a column, its type only); its encoding, the
  encoding of a feature, and the constants are inputs of the model. A geometry is what the
  writer observes of it: its type code, whether it is empty, its WKB size and its
  envelope (none for an envelope that is not initialised).
\<close>

datatype GeometryType =
  GT_Unknown | GT_Point | GT_LineString | GT_Polygon | GT_MultiPoint | GT_MultiLineString
  | GT_MultiPolygon | GT_GeometryCollection | GT_CircularString | GT_CompoundCurve
  | GT_CurvePolygon | GT_MultiCurve | GT_MultiSurface | GT_Curve | GT_Surface
  | GT_PolyhedralSurface | GT_TIN | GT_Triangle

type_synonym OGRwkbGeometryType = nat

datatype OGRFieldType =
  OFTInteger | OFTIntegerList | OFTReal | OFTRealList | OFTString | OFTStringList
  | OFTWideString | OFTWideStringList | OFTBinary | OFTDate | OFTTime | OFTDateTime
  | OFTInteger64 | OFTInteger64List

datatype OGRFieldSubType = OFSTNone | OFSTBoolean | OFSTInt16 | OFSTFloat32 | OFSTJSON | OFSTUUID

record OGREnvelope =
  MinX :: real
  MinY :: real
  MaxX :: real
  MaxY :: real

record OGRGeometry =
  getGeometryType :: OGRwkbGeometryType
  IsEmpty :: bool
  geomWkbSize :: nat
  getEnvelope :: "OGREnvelope option"

record OGRFeature =
  rawFields :: "OGRField list"
  GetGeometryRef :: "OGRGeometry option"

datatype ExtentVector = ExtentNaN | ExtentBox OGREnvelope

record Header =
  name :: string
  envelope :: "ExtentVector option"
  geometry_type :: GeometryType
  has_z :: bool
  has_m :: bool
  has_t :: bool
  has_tm :: bool
  header_columns :: "ColumnType list"
  features_count :: nat
  index_node_size :: nat
  crs :: "string option"
  title :: "string option"
  description :: "string option"
  metadata :: "string option"

record VSILFILE =
  fileBytes :: "byte list"
  filePos :: nat
  fileRoom :: nat

record FeatureItem =
  itemSize :: nat
  itemOffset :: nat
  nodeItem :: "OGREnvelope option"

record FGBLayer =
  m_create :: bool
  m_bCreateSpatialIndexAtClose :: bool
  m_osFilename :: string
  m_osLayerName :: string
  m_geometryType :: GeometryType
  m_eGType :: OGRwkbGeometryType
  m_hasZ :: bool
  m_hasM :: bool
  m_hasT :: bool
  m_hasTM :: bool
  m_fieldDefs :: "(OGRFieldType \<times> OGRFieldSubType) list"
  m_poSRS :: "string option"
  m_titleDescMetadata :: "string option \<times> string option \<times> string option"
  m_featuresCount :: nat
  m_writeOffset :: nat
  m_offsetAfterHeader :: nat
  m_maxFeatureSize :: nat
  m_indexNodeSize :: nat
  m_sExtent :: "OGREnvelope option"
  m_featureItems :: "FeatureItem list"
  m_writeProperties :: "byte list"
  m_poFpWrite :: "VSILFILE option"
  m_poFp :: "VSILFILE option"
  m_poHeader :: "Header option"
  m_offsetFeatures :: nat
  m_offset :: nat

record WriteEnv =
  feature_max_buffer_size :: nat
  CPLIsUTF8 :: "byte list \<Rightarrow> bool"
  OGRGetISO8601DateTime :: "OGRField \<Rightarrow> byte list"
  doubleToFloat :: "64 word \<Rightarrow> 32 word"
  reserveThrows :: "nat \<Rightarrow> nat \<Rightarrow> bool"
  serializeThrows :: bool
  emplaceThrows :: bool
  geometryOffset :: "OGRGeometry \<Rightarrow> nat"
  encodeFeature ::
    "GeometryType \<Rightarrow> bool \<Rightarrow> bool \<Rightarrow> OGRGeometry option \<Rightarrow> byte list option \<Rightarrow> byte list"
  encodeHeader :: "Header \<Rightarrow> byte list"
  openFinal :: "nat option"
  secondPass :: "FGBLayer \<Rightarrow> bool \<times> FGBLayer"

record ReadEnv =
  header_max_buffer_size :: nat
  seekFails :: bool
  VSIMallocOK :: "nat \<Rightarrow> bool"
  VerifyHeaderBuffer :: "byte list \<Rightarrow> bool"
  GetHeader :: "byte list \<Rightarrow> Header"
  PackedRTree_size :: "nat \<Rightarrow> nat option"
  wkbSetZ :: "OGRwkbGeometryType \<Rightarrow> OGRwkbGeometryType"
  wkbSetM :: "OGRwkbGeometryType \<Rightarrow> OGRwkbGeometryType"

subsection \<open>Bytes and files\<close>

fun leBytes :: "nat \<Rightarrow> nat \<Rightarrow> byte list" where
  "leBytes 0 n = []"
| "leBytes (Suc w) n = word_of_nat (n mod 256) # leBytes w (n div 256)"

definition twos :: "nat \<Rightarrow> int \<Rightarrow> nat" where
  \<comment> \<open>the bits of a signed integer in w bytes\<close>
  "twos w v = nat (v mod 2 ^ (8 * w))"

definition magicbytes :: "byte list" where
  \<comment> \<open>Modelled from the spec: an 8-byte magic; of its value only the size is used.\<close>
  "magicbytes = [0x66, 0x67, 0x62, 0x03, 0x66, 0x67, 0x62, 0x00]"

definition VSIFWriteL :: "byte list \<Rightarrow> nat \<Rightarrow> nat \<Rightarrow> VSILFILE \<Rightarrow> nat \<times> VSILFILE" where
  \<comment> \<open>\<^verbatim>\<open>VSIFWriteL(buf, size, count, fp)\<close>: the bytes the storage accepts are written at the
      position of the handle (a position within the file); the result is the number of
      complete items written.\<close>
  "VSIFWriteL buf sz count fp =
     (let k = min (sz * count) (fileRoom fp);
          written = take k buf in
      (if sz = 0 then 0 else k div sz,
       fp\<lparr> fileBytes := take (filePos fp) (fileBytes fp) @ written
                          @ drop (filePos fp + k) (fileBytes fp),
           filePos := filePos fp + k,
           fileRoom := fileRoom fp - k \<rparr>))"

definition VSIFReadL :: "nat \<Rightarrow> nat \<Rightarrow> VSILFILE \<Rightarrow> byte list \<times> nat \<times> VSILFILE" where
  \<comment> \<open>\<^verbatim>\<open>VSIFReadL(buf, size, count, fp)\<close>: the bytes read, the number of complete items,
      and the handle advanced.\<close>
  "VSIFReadL sz count fp =
     (let got = take (sz * count) (drop (filePos fp) (fileBytes fp)) in
      (got, if sz = 0 then 0 else length got div sz,
       fp\<lparr> filePos := filePos fp + length got \<rparr>))"

definition VSIFSeekL :: "VSILFILE \<Rightarrow> nat \<Rightarrow> VSILFILE" where
  "VSIFSeekL fp off = fp\<lparr> filePos := off \<rparr>"

definition SupportsSeekWhileWriting :: "string \<Rightarrow> bool" where
  "SupportsSeekWhileWriting osFilename =
     (\<not> (take 4 osFilename = ''/vsi'') \<or> take 8 osFilename = ''/vsimem/'')"

subsection \<open>writeHeader\<close>

definition toColumnType :: "OGRFieldType \<Rightarrow> OGRFieldSubType \<Rightarrow> ColumnType" where
  "toColumnType type subType =
     (case type of
        OFTInteger \<Rightarrow> if subType = OFSTBoolean then CT_Bool
                      else if subType = OFSTInt16 then CT_Short else CT_Int
      | OFTInteger64 \<Rightarrow> CT_Long
      | OFTReal \<Rightarrow> if subType = OFSTFloat32 then CT_Float else CT_Double
      | OFTString \<Rightarrow> CT_String
      | OFTDate \<Rightarrow> CT_DateTime
      | OFTTime \<Rightarrow> CT_DateTime
      | OFTDateTime \<Rightarrow> CT_DateTime
      | OFTBinary \<Rightarrow> CT_Binary
      | _ \<Rightarrow> CT_String)"

definition writeColumns :: "FGBLayer \<Rightarrow> ColumnType list" where
  "writeColumns layer = map (\<lambda>(t, s). toColumnType t s) (m_fieldDefs layer)"

definition FinishSizePrefixed :: "byte list \<Rightarrow> byte list" where
  \<comment> \<open>Modelled from the spec: a block prefixed by its 4-byte little-endian size.\<close>
  "FinishSizePrefixed body = leBytes 4 (length body) @ body"

text \<open>
  The CRS, the title, the description and the metadata of the header are derived (lines
  397 to 515) from \<^verbatim>\<open>m_poSRS\<close>, the creation options and the metadata items of the layer,
  which writing a feature does not change; the layer carries them as they are written.
  The results of both \<^verbatim>\<open>VSIFWriteL\<close> calls are used as the source uses them: the first is
  only logged, the second is added to \<^verbatim>\<open>m_writeOffset\<close>.
\<close>

definition writeHeader ::
  "WriteEnv \<Rightarrow> FGBLayer \<Rightarrow> VSILFILE \<Rightarrow> nat \<Rightarrow> ExtentVector option \<Rightarrow> FGBLayer \<times> VSILFILE" where
  "writeHeader env layer poFp featuresCount extentVector =
     (let (c0, fp1) = VSIFWriteL magicbytes (length magicbytes) 1 poFp;
          layer1 = layer\<lparr> m_writeOffset := m_writeOffset layer + length magicbytes \<rparr>;
          header = \<lparr> name = m_osLayerName layer1, envelope = extentVector,
                     geometry_type = m_geometryType layer1,
                     has_z = m_hasZ layer1, has_m = m_hasM layer1,
                     has_t = m_hasT layer1, has_tm = m_hasTM layer1,
                     header_columns = writeColumns layer1,
                     features_count = featuresCount,
                     index_node_size = m_indexNodeSize layer1,
                     crs = m_poSRS layer1,
                     title = fst (m_titleDescMetadata layer1),
                     description = fst (snd (m_titleDescMetadata layer1)),
                     metadata = snd (snd (m_titleDescMetadata layer1)) \<rparr>;
          buf = FinishSizePrefixed (encodeHeader env header);
          (c, fp2) = VSIFWriteL buf 1 (length buf) fp1
      in (layer1\<lparr> m_writeOffset := m_writeOffset layer1 + c \<rparr>, fp2))"

subsection \<open>ICreateFeature\<close>

definition IsFieldSetAndNotNull :: "OGRField \<Rightarrow> bool" where
  "IsFieldSetAndNotNull f = (f \<noteq> Unset \<and> f \<noteq> FNull)"

definition fieldInteger :: "OGRField \<Rightarrow> int" where
  "fieldInteger f = (case f of FInteger v \<Rightarrow> v | _ \<Rightarrow> 0)"

definition fieldInteger64 :: "OGRField \<Rightarrow> int" where
  "fieldInteger64 f = (case f of FInteger64 v \<Rightarrow> v | _ \<Rightarrow> 0)"

definition fieldReal :: "OGRField \<Rightarrow> 64 word" where
  "fieldReal f = (case f of FReal v \<Rightarrow> v | _ \<Rightarrow> 0)"

definition fieldString :: "OGRField \<Rightarrow> byte list" where
  "fieldString f = (case f of FString s \<Rightarrow> takeWhile (\<lambda>b. b \<noteq> 0) s | _ \<Rightarrow> [])"

definition fieldBinary :: "OGRField \<Rightarrow> byte list" where
  "fieldBinary f = (case f of FBinary s \<Rightarrow> s | _ \<Rightarrow> [])"

text \<open>
  The \<^verbatim>\<open>switch (fieldType)\<close> of the property loop: the bytes appended to
  \<^verbatim>\<open>properties\<close> for one field, and whether the loop goes on (false: the function
  returns \<^verbatim>\<open>OGRERR_FAILURE\<close>). A field holds a value of the type its definition declares;
  the accessors above give 0 or the empty string otherwise. The capacity of the
  \<^verbatim>\<open>std::vector\<close> is not modelled: \<^verbatim>\<open>reserveThrows\<close> says whether \<^verbatim>\<open>reserve\<close> is reached
  and throws \<^verbatim>\<open>std::bad_alloc\<close>.
\<close>

definition appendDateTime :: "WriteEnv \<Rightarrow> OGRField \<Rightarrow> byte list \<Rightarrow> bool \<times> byte list" where
  "appendDateTime env field properties =
     (let szBuffer = OGRGetISO8601DateTime env field in
      (True, properties @ leBytes 4 (length szBuffer) @ szBuffer))"

definition appendValue ::
  "WriteEnv \<Rightarrow> OGRFieldType \<Rightarrow> OGRFieldSubType \<Rightarrow> OGRField \<Rightarrow> byte list \<Rightarrow> bool \<times> byte list" where
  "appendValue env fieldType fieldSubType field properties =
     (case fieldType of
        OFTInteger \<Rightarrow>
          if fieldSubType = OFSTBoolean
          then (True, properties @ leBytes 1 (twos 1 (fieldInteger field)))
          else if fieldSubType = OFSTInt16
          then (True, properties @ leBytes 2 (twos 2 (fieldInteger field)))
          else (True, properties @ leBytes 4 (twos 4 (fieldInteger field)))
      | OFTInteger64 \<Rightarrow> (True, properties @ leBytes 8 (twos 8 (fieldInteger64 field)))
      | OFTReal \<Rightarrow>
          if fieldSubType = OFSTFloat32
          then (True, properties @ leBytes 4 (unat (doubleToFloat env (fieldReal field))))
          else (True, properties @ leBytes 8 (unat (fieldReal field)))
      | OFTString \<Rightarrow>
          let len = length (fieldString field) in
          if len \<ge> feature_max_buffer_size env
             \<or> length properties > feature_max_buffer_size env - len
          then (False, properties)
          else if \<not> CPLIsUTF8 env (fieldString field) then (False, properties)
          else
            let properties1 = properties @ leBytes 4 len in
            if reserveThrows env (length properties1) len then (False, properties1)
            else (True, properties1 @ fieldString field)
      | OFTBinary \<Rightarrow>
          let len = length (fieldBinary field) in
          if len \<ge> feature_max_buffer_size env
             \<or> length properties > feature_max_buffer_size env - len
          then (False, properties)
          else
            let properties1 = properties @ leBytes 4 len in
            if reserveThrows env (length properties1) len then (False, properties1)
            else (True, properties1 @ fieldBinary field)
      | OFTDate \<Rightarrow> appendDateTime env field properties
      | OFTTime \<Rightarrow> appendDateTime env field properties
      | OFTDateTime \<Rightarrow> appendDateTime env field properties
      | _ \<Rightarrow> (False, properties))"

definition propertyStep ::
  "WriteEnv \<Rightarrow> FGBLayer \<Rightarrow> OGRFeature \<Rightarrow> nat \<Rightarrow> bool \<times> byte list \<Rightarrow> bool \<times> byte list" where
  "propertyStep env layer poNewFeature i acc =
     (if \<not> fst acc then acc
      else if \<not> IsFieldSetAndNotNull (rawFields poNewFeature ! i) then acc
      else appendValue env (fst (m_fieldDefs layer ! i)) (snd (m_fieldDefs layer ! i))
             (rawFields poNewFeature ! i) (snd acc @ leBytes 2 i))"

definition writeProperties :: "WriteEnv \<Rightarrow> FGBLayer \<Rightarrow> OGRFeature \<Rightarrow> bool \<times> byte list" where
  "writeProperties env layer poNewFeature =
     fold (propertyStep env layer poNewFeature) [0..<length (m_fieldDefs layer)] (True, [])"

definition Merge :: "OGREnvelope option \<Rightarrow> OGREnvelope option \<Rightarrow> OGREnvelope option" where
  "Merge a b =
     (case (a, b) of
        (Some e, Some f) \<Rightarrow>
          Some \<lparr> MinX = min (MinX e) (MinX f), MinY = min (MinY e) (MinY f),
                 MaxX = max (MaxX e) (MaxX f), MaxY = max (MaxY e) (MaxY f) \<rparr>
      | (Some e, None) \<Rightarrow> Some e
      | (None, _) \<Rightarrow> b)"

text \<open>
  The \<^verbatim>\<open>try\<close> block of \<^verbatim>\<open>ICreateFeature\<close> (lines 2306 to 2400). A \<^verbatim>\<open>std::bad_alloc\<close> is
  thrown, if at all, while the FlatBuffer of the feature is built (\<^verbatim>\<open>serializeThrows\<close>) or
  when the index item is appended (\<^verbatim>\<open>emplaceThrows\<close>). The source tests \<^verbatim>\<open>m_poFpWrite\<close>
  for null before the first feature only; \<^verbatim>\<open>Create\<close> gives a layer a handle that is not
  null, and the model fails on a null handle for every feature.
\<close>

definition writeFeature ::
  "WriteEnv \<Rightarrow> FGBLayer \<Rightarrow> OGRGeometry option \<Rightarrow> byte list \<Rightarrow> OGRErr \<times> FGBLayer" where
  "writeFeature env layer ogrGeometry properties =
     (let nonEmpty = (case ogrGeometry of None \<Rightarrow> None
                      | Some g \<Rightarrow> if IsEmpty g then None else Some g) in
      if (case nonEmpty of None \<Rightarrow> False
          | Some g \<Rightarrow> geomWkbSize g > feature_max_buffer_size env - geomWkbSize g div 10)
      then (OGRERR_FAILURE, layer)
      else if serializeThrows env then (OGRERR_FAILURE, layer)
      else
        let geometryOffset_o = (case nonEmpty of None \<Rightarrow> 0 | Some g \<Rightarrow> geometryOffset env g);
            pProperties = (if properties = [] then None else Some properties) in
        if length properties > feature_max_buffer_size env - geometryOffset_o
        then (OGRERR_FAILURE, layer)
        else
          let buf = FinishSizePrefixed
                      (encodeFeature env (m_geometryType layer) (m_hasZ layer) (m_hasM layer)
                         nonEmpty pProperties);
              psEnvelope = (case ogrGeometry of None \<Rightarrow> None | Some g \<Rightarrow> getEnvelope g);
              layer1 = (case ogrGeometry of None \<Rightarrow> layer
                        | Some g \<Rightarrow> layer\<lparr> m_sExtent := Merge (m_sExtent layer) psEnvelope \<rparr>)
          in
          case m_poFpWrite layer1 of
              None \<Rightarrow> (OGRERR_FAILURE, layer1)
            | Some fp0 \<Rightarrow>
                let (layer2, fp1) =
                      (if m_featuresCount layer1 = 0
                       then (if \<not> SupportsSeekWhileWriting (m_osFilename layer1)
                             then writeHeader env layer1 fp0 0 None
                             else (let (l, f) = writeHeader env layer1 fp0 3735928559 (Some ExtentNaN)
                                   in (l\<lparr> m_offsetAfterHeader := m_writeOffset l \<rparr>, f)))
                       else (layer1, fp0));
                    layer3 = layer2\<lparr> m_maxFeatureSize := max (m_maxFeatureSize layer2) (length buf) \<rparr>;
                    (c, fp2) = VSIFWriteL buf 1 (length buf) fp1;
                    layer4 = layer3\<lparr> m_poFpWrite := Some fp2 \<rparr>
                in
                if c = 0 then (OGRERR_FAILURE, layer4)
                else if m_bCreateSpatialIndexAtClose layer4 \<and> emplaceThrows env
                then (OGRERR_FAILURE, layer4)
                else
                  let layer5 =
                        (if m_bCreateSpatialIndexAtClose layer4
                         then layer4\<lparr> m_featureItems := m_featureItems layer4
                                        @ [\<lparr> itemSize = length buf, itemOffset = m_writeOffset layer4,
                                              nodeItem = psEnvelope \<rparr>] \<rparr>
                         else layer4)
                  in (OGRERR_NONE,
                      layer5\<lparr> m_writeOffset := m_writeOffset layer5 + c,
                              m_featuresCount := m_featuresCount layer5 + 1 \<rparr>))"

definition ICreateFeature :: "WriteEnv \<Rightarrow> FGBLayer \<Rightarrow> OGRFeature \<Rightarrow> OGRErr \<times> FGBLayer" where
  "ICreateFeature env layer poNewFeature =
     (if \<not> m_create layer then (OGRERR_FAILURE, layer)
      else
        let (ok, properties) = writeProperties env layer poNewFeature;
            layer1 = layer\<lparr> m_writeProperties := properties \<rparr>;
            ogrGeometry = GetGeometryRef poNewFeature
        in
        if \<not> ok then (OGRERR_FAILURE, layer1)
        else if m_bCreateSpatialIndexAtClose layer1
                \<and> (case ogrGeometry of None \<Rightarrow> True | Some g \<Rightarrow> IsEmpty g)
        then (OGRERR_FAILURE, layer1)
        else if (case ogrGeometry of None \<Rightarrow> False
                 | Some g \<Rightarrow> m_geometryType layer1 \<noteq> GT_Unknown
                             \<and> getGeometryType g \<noteq> m_eGType layer1)
        then (OGRERR_FAILURE, layer1)
        else writeFeature env layer1 ogrGeometry properties)"

subsection \<open>CreateFinalFile\<close>

text \<open>
  \<^verbatim>\<open>openFinal\<close> is the outcome of \<^verbatim>\<open>VSIFOpenL(m_osFilename, "wb")\<close>: none when the file
  cannot be created, otherwise the room of the new, empty file. The second pass (lines
  590 to 785), which sorts the index items and builds the packed R-tree (packedrtree.h,
  not among the source files), is the input \<^verbatim>\<open>secondPass\<close>; it is entered only when a
  feature was written.
\<close>

definition CreateFinalFile :: "WriteEnv \<Rightarrow> FGBLayer \<Rightarrow> bool \<times> FGBLayer" where
  "CreateFinalFile env layer =
     (if \<not> m_bCreateSpatialIndexAtClose layer
      then (case m_poFpWrite layer of
              None \<Rightarrow> (True, layer)
            | Some fp \<Rightarrow>
                if \<not> SupportsSeekWhileWriting (m_osFilename layer) then (True, layer)
                else
                  let fp0 = VSIFSeekL fp 0;
                      layer0 = layer\<lparr> m_writeOffset := 0 \<rparr>;
                      extentVector = (case m_sExtent layer0 of
                                        None \<Rightarrow> ExtentNaN
                                      | Some e \<Rightarrow> ExtentBox e);
                      (layer1, fp1) = writeHeader env layer0 fp0 (m_featuresCount layer0)
                                        (Some extentVector)
                  in (True, layer1\<lparr> m_poFpWrite := Some fp1 \<rparr>))
      else
        case openFinal env of
          None \<Rightarrow> (False, layer\<lparr> m_poFp := None \<rparr>)
        | Some r \<Rightarrow>
            let fp = \<lparr> fileBytes = [], filePos = 0, fileRoom = r \<rparr>;
                layer0 = layer\<lparr> m_poFp := Some fp \<rparr> in
            if m_writeOffset layer0 = 0 \<or> m_featuresCount layer0 = 0
            then (let (layer1, fp1) = writeHeader env layer0 fp 0 None
                  in (True, layer1\<lparr> m_poFp := Some fp1 \<rparr>))
            else secondPass env layer0)"

subsection \<open>Open\<close>

definition getOGRwkbGeometryType ::
  "ReadEnv \<Rightarrow> GeometryType \<Rightarrow> bool \<Rightarrow> bool \<Rightarrow> OGRwkbGeometryType" where
  \<comment> \<open>the codes 0 to 17 of \<^verbatim>\<open>GeometryType\<close> are those of the flat \<^verbatim>\<open>OGRwkbGeometryType\<close>\<close>
  "getOGRwkbGeometryType env g hasZ hasM =
     (let ogrType0 = (case g of
            GT_Unknown \<Rightarrow> 0 | GT_Point \<Rightarrow> 1 | GT_LineString \<Rightarrow> 2 | GT_Polygon \<Rightarrow> 3
          | GT_MultiPoint \<Rightarrow> 4 | GT_MultiLineString \<Rightarrow> 5 | GT_MultiPolygon \<Rightarrow> 6
          | GT_GeometryCollection \<Rightarrow> 7 | GT_CircularString \<Rightarrow> 8 | GT_CompoundCurve \<Rightarrow> 9
          | GT_CurvePolygon \<Rightarrow> 10 | GT_MultiCurve \<Rightarrow> 11 | GT_MultiSurface \<Rightarrow> 12
          | GT_Curve \<Rightarrow> 13 | GT_Surface \<Rightarrow> 14 | GT_PolyhedralSurface \<Rightarrow> 15
          | GT_TIN \<Rightarrow> 16 | GT_Triangle \<Rightarrow> 17);
          ogrType1 = (if hasZ then wkbSetZ env ogrType0 else ogrType0)
      in if hasM then wkbSetM env ogrType1 else ogrType1)"

definition toOGRFieldType :: "ColumnType \<Rightarrow> OGRFieldType \<times> OGRFieldSubType" where
  "toOGRFieldType type =
     (case type of
        CT_Byte \<Rightarrow> (OFTInteger, OFSTNone)
      | CT_UByte \<Rightarrow> (OFTInteger, OFSTNone)
      | CT_Bool \<Rightarrow> (OFTInteger, OFSTBoolean)
      | CT_Short \<Rightarrow> (OFTInteger, OFSTInt16)
      | CT_UShort \<Rightarrow> (OFTInteger, OFSTNone)
      | CT_Int \<Rightarrow> (OFTInteger, OFSTNone)
      | CT_UInt \<Rightarrow> (OFTInteger64, OFSTNone)
      | CT_Long \<Rightarrow> (OFTInteger64, OFSTNone)
      | CT_ULong \<Rightarrow> (OFTReal, OFSTNone)
      | CT_Float \<Rightarrow> (OFTReal, OFSTFloat32)
      | CT_Double \<Rightarrow> (OFTReal, OFSTNone)
      | CT_String \<Rightarrow> (OFTString, OFSTNone)
      | CT_Json \<Rightarrow> (OFTString, OFSTNone)
      | CT_DateTime \<Rightarrow> (OFTDateTime, OFSTNone)
      | CT_Binary \<Rightarrow> (OFTBinary, OFSTNone))"

text \<open>
  The constructor of a layer opened for reading (lines 52 to 181) sets the members below
  from the header; the CRS, title, description and metadata are kept as the header has
  them. Modelled from the spec: the members it does not set keep the initialisers of the
  class declaration (ogr_flatgeobuf.h, not among the source files): zero, false, empty
  and null. \<^verbatim>\<open>wkbSetZ\<close> and \<^verbatim>\<open>wkbSetM\<close> (ogr_core.h) are inputs.
\<close>

definition readLayer :: "ReadEnv \<Rightarrow> Header \<Rightarrow> string \<Rightarrow> VSILFILE \<Rightarrow> nat \<Rightarrow> FGBLayer" where
  "readLayer env poHeader pszFilename poFp off =
     \<lparr> m_create = False,
       m_bCreateSpatialIndexAtClose = False,
       m_osFilename = pszFilename,
       m_osLayerName = [],
       m_geometryType = geometry_type poHeader,
       m_eGType = getOGRwkbGeometryType env (geometry_type poHeader) (has_z poHeader) (has_m poHeader),
       m_hasZ = has_z poHeader,
       m_hasM = has_m poHeader,
       m_hasT = has_t poHeader,
       m_hasTM = False,
       m_fieldDefs = map toOGRFieldType (header_columns poHeader),
       m_poSRS = crs poHeader,
       m_titleDescMetadata = (title poHeader, description poHeader, metadata poHeader),
       m_featuresCount = features_count poHeader,
       m_writeOffset = 0,
       m_offsetAfterHeader = 0,
       m_maxFeatureSize = 0,
       m_indexNodeSize = index_node_size poHeader,
       m_sExtent = (case envelope poHeader of Some (ExtentBox e) \<Rightarrow> Some e | _ \<Rightarrow> None),
       m_featureItems = [],
       m_writeProperties = [],
       m_poFpWrite = None,
       m_poFp = Some poFp,
       m_poHeader = Some poHeader,
       m_offsetFeatures = off,
       m_offset = off \<rparr>"

definition Open :: "ReadEnv \<Rightarrow> string \<Rightarrow> VSILFILE \<Rightarrow> bool \<Rightarrow> FGBLayer option" where
  "Open env pszFilename fp bVerifyBuffers =
     (if seekFails env then None
      else
        let fp0 = VSIFSeekL fp (length magicbytes);
            (sizeBytes, n, fp1) = VSIFReadL 4 1 fp0 in
        if n \<noteq> 1 then None
        else
          let headerSize = leNat sizeBytes 0 4 in
          if headerSize > header_max_buffer_size env then None
          else if \<not> VSIMallocOK env headerSize then None
          else
            let (buf, m, fp2) = VSIFReadL 1 headerSize fp1 in
            if m \<noteq> headerSize then None
            else if bVerifyBuffers \<and> \<not> VerifyHeaderBuffer env buf then None
            else
              let header = GetHeader env buf;
                  off = length magicbytes + (4 + headerSize);
                  featuresCount = features_count header in
              if featuresCount > min (18446744073709551615 div 8) (100 * 1000 * 1000 * 1000)
              then None
              else if index_node_size header > 0
              then (case PackedRTree_size env featuresCount of
                      None \<Rightarrow> None
                    | Some treeSize \<Rightarrow> Some (readLayer env header pszFilename fp2 (off + treeSize)))
              else Some (readLayer env header pszFilename fp2 off))"

section \<open>Vocabulary for stating the geometric properties\<close>




definition sameXY :: "OGRRawPoint \<Rightarrow> OGRRawPoint \<Rightarrow> bool" where
  "sameXY a b = (px a = px b \<and> py a = py b)"


definition orient :: "OGRRawPoint \<Rightarrow> OGRRawPoint \<Rightarrow> OGRRawPoint \<Rightarrow> real" where
  \<comment> \<open>twice the signed area of the triangle \<open>a b c\<close>: positive for a left turn\<close>
  "orient a b c = (px b - px a) * (py c - py a) - (py b - py a) * (px c - px a)"



definition fanG :: "(nat \<Rightarrow> OGRRawPoint) \<Rightarrow> nat \<Rightarrow> real" where
  \<comment> \<open>the Green sum of the polygon \<open>p 0 \<dots> p k\<close>\<close>
  "fanG p k = px (p 0) * (py (p 1) - py (p k)) + (\<Sum>i = 1..<k. greenTerm p i)
              + px (p k) * (py (p 0) - py (p (k - 1)))"














section \<open>Vocabulary for the properties of Value\<close>



text \<open>
  \<open>accLen c i\<close> is the length accumulated before segment \<open>i\<close>; segment \<open>i\<close> brackets
  the distance \<open>d\<close> when it has non-zero length and \<open>d\<close> lies between the accumulated
  length at its start and at its end.
\<close>

definition accLen :: "OGRSimpleCurve \<Rightarrow> nat \<Rightarrow> real" where
  "accLen c i = (\<Sum>j<i. dfSegLength c j)"




section \<open>Vocabulary for the properties of setNumPoints and transform\<close>

definition allOK :: AllocEnv where
  "allOK = \<lparr> okPoints = True, okZ = True, okM = True, okMake3D = True, okAddM = True,
             okScratch = True, fresh = 0 \<rparr>"

definition freedArrays :: "OGRSimpleCurve \<Rightarrow> OGRSimpleCurve" where
  "freedArrays c = c\<lparr> paoPoints := None, padfZ := None, padfM := None, m_nPointCapacity := 0 \<rparr>"

definition planesAt :: "OGRSimpleCurve \<Rightarrow> nat \<Rightarrow> bool" where
  "planesAt c cap =
     ((\<exists>ps. paoPoints c = Some ps \<and> length ps = cap)
      \<and> (flag3D c \<longrightarrow> (\<exists>zs. padfZ c = Some zs \<and> length zs = cap))
      \<and> (flagMeasured c \<longrightarrow> (\<exists>ms. padfM c = Some ms \<and> length ms = cap)))"

definition shiftCT :: "bool list \<Rightarrow> CoordTransform" where
  "shiftCT flags pts i = (case pts ! i of (a, b, z) \<Rightarrow> ((a + 10, b + 20, z + 30), flags ! i))"

definition isYes :: "string \<Rightarrow> bool" where
  "isYes s = (s = ''YES'')"

definition inputTriples :: "OGRSimpleCurve \<Rightarrow> (real \<times> real \<times> real) list" where
  "inputTriples c =
     map (\<lambda>i. (px (pt c i), py (pt c i), if padfZ c \<noteq> None then zOf c i else 0))
         [0..<nPointCount c]"

definition okPt :: "CoordTransform \<Rightarrow> OGRSimpleCurve \<Rightarrow> nat \<Rightarrow> bool" where
  "okPt poCT c i = snd (poCT (inputTriples c) i)"

definition outPt :: "CoordTransform \<Rightarrow> OGRSimpleCurve \<Rightarrow> nat \<Rightarrow> real \<times> real \<times> real" where
  "outPt poCT c i = fst (poCT (inputTriples c) i)"

definition survivors :: "CoordTransform \<Rightarrow> OGRSimpleCurve \<Rightarrow> nat list" where
  "survivors poCT c = filter (okPt poCT c) [0..<nPointCount c]"

definition curveInv :: "OGRSimpleCurve \<Rightarrow> bool" where
  "curveInv c =
     (nPointCount c \<le> m_nPointCapacity c
      \<and> (case paoPoints c of None \<Rightarrow> m_nPointCapacity c = 0
          | Some ps \<Rightarrow> length ps = m_nPointCapacity c)
      \<and> (case padfZ c of None \<Rightarrow> True | Some zs \<Rightarrow> m_nPointCapacity c \<le> length zs)
      \<and> (case padfM c of None \<Rightarrow> True | Some ms \<Rightarrow> m_nPointCapacity c \<le> length ms))"

definition fillLoop :: "OGRSimpleCurve \<Rightarrow> nat \<Rightarrow> real list \<Rightarrow> real list" where
  "fillLoop c k xyz0 =
     fold (\<lambda>i xyz. xyz[i := px (pt c i), i + nPointCount c := py (pt c i),
                       i + nPointCount c * 2 := (if padfZ c \<noteq> None then zOf c i else 0)])
          [0..<k] xyz0"

definition compactLoop ::
  "bool \<Rightarrow> nat \<Rightarrow> bool list \<Rightarrow> nat \<Rightarrow> real list \<Rightarrow> (real list \<times> nat) option" where
  "compactLoop enabled n pabSuccess k xyz1 =
     fold (compactStep enabled n pabSuccess) [0..<k] (Some (xyz1, 0))"

definition compactInv ::
  "nat \<Rightarrow> bool list \<Rightarrow> real list \<Rightarrow> nat \<Rightarrow> real list \<times> nat \<Rightarrow> bool" where
  "compactInv n succ xyz1 k st =
     (let xyz = fst st; j = snd st; surv = filter (\<lambda>i. succ ! i) [0..<k] in
      j = length surv \<and> length xyz = n * 3
      \<and> (\<forall>m<j. xyz ! m = xyz1 ! (surv ! m) \<and> xyz ! (m + n) = xyz1 ! (surv ! m + n)
               \<and> xyz ! (m + 2 * n) = xyz1 ! (surv ! m + 2 * n))
      \<and> (\<forall>m. j \<le> m \<and> m < n \<longrightarrow> xyz ! m = xyz1 ! m \<and> xyz ! (m + n) = xyz1 ! (m + n)
               \<and> xyz ! (m + 2 * n) = xyz1 ! (m + 2 * n)))"

definition threePts :: OGRSimpleCurve where
  "threePts = mkCurve [(1, 2), (3, 4), (5, 6)]"

definition measuredPts :: OGRSimpleCurve where
  \<comment> \<open>the curve \<open>threePts\<close> with an M value at each point\<close>
  "measuredPts = threePts\<lparr> padfM := Some [100, 200, 300], flagMeasured := True \<rparr>"

section \<open>Vocabulary for the properties of segmentize\<close>

definition sqDist :: "OGRRawPoint \<Rightarrow> OGRRawPoint \<Rightarrow> real" where
  "sqDist a b = (px b - px a) * (px b - px a) + (py b - py a) * (py b - py a)"

definition needsSplitP :: "real \<Rightarrow> OGRRawPoint \<Rightarrow> OGRRawPoint \<Rightarrow> bool" where
  "needsSplitP L a b = (sqDist a b - L * L > REL_EPSILON_LENGTH_SQUARE * (L * L))"

definition nInterP :: "real \<Rightarrow> OGRRawPoint \<Rightarrow> OGRRawPoint \<Rightarrow> int" where
  "nInterP L a b = DoubleToIntClamp (of_int \<lfloor>sqrt (sqDist a b / (L * L)) - REL_EPSILON_ROUND\<rfloor>)"


definition blockP :: "OGRSimpleCurve \<Rightarrow> real \<Rightarrow> nat \<Rightarrow> OGRRawPoint list" where
  "blockP c L i =
     pt c i # (if i \<noteq> nPointCount c - 1 \<and> needsSplit c L i then intermediates c L i else [])"


definition countLoop :: "OGRSimpleCurve \<Rightarrow> real \<Rightarrow> nat \<Rightarrow> int option" where
  "countLoop c L k = fold (countStep c L) [0..<k] (Some 0)"


definition fillLoopS ::
  "OGRSimpleCurve \<Rightarrow> real \<Rightarrow> nat \<Rightarrow> OGRRawPoint list \<times> real list \<times> real list" where
  "fillLoopS c L k = fold (fillStep c L) [0..<k] ([], [], [])"

definition newCurve :: "OGRSimpleCurve \<Rightarrow> real \<Rightarrow> OGRSimpleCurve" where
  "newCurve c L =
     c\<lparr> paoPoints := Some (fst (fillLoopS c L (nPointCount c))),
        nPointCount := length (fst (fillLoopS c L (nPointCount c))),
        m_nPointCapacity := length (fst (fillLoopS c L (nPointCount c))),
        padfZ := (if padfZ c \<noteq> None
                  then Some (fst (snd (fillLoopS c L (nPointCount c)))) else None),
        padfM := (if padfM c \<noteq> None
                  then Some (snd (snd (fillLoopS c L (nPointCount c)))) else None) \<rparr>"






section \<open>Vocabulary for the properties of the property stream\<close>

text \<open>
  \<^verbatim>\<open>stateAt k\<close> is the state of the loop at the head of its k-th iteration, when the
  iterations before it succeeded; \<^verbatim>\<open>tupleAt k i\<close> says that the k-th tuple is reached and
  carries the column index i; \<^verbatim>\<open>storesValue k\<close> says that the field of the k-th tuple is not
  ignored and that its value, when the column is a DateTime, is one the date parsers
  accept.
\<close>

definition tagAt :: "byte list \<Rightarrow> nat \<times> OGRField list \<Rightarrow> nat" where
  "tagAt d st = leNat d (fst st) 2"

definition inLoop :: "byte list \<Rightarrow> nat \<times> OGRField list \<Rightarrow> bool" where
  "inLoop d st = (fst st + 1 < length d)"

fun stateAt ::
  "DecodeCtx \<Rightarrow> byte list \<Rightarrow> OGRField list \<Rightarrow> nat \<Rightarrow> (nat \<times> OGRField list) option" where
  "stateAt ctx d raw0 0 = Some (0, raw0)"
| "stateAt ctx d raw0 (Suc k) =
     (case stateAt ctx d raw0 k of
        None \<Rightarrow> None
      | Some st \<Rightarrow>
          if inLoop d st
          then (case parseTuple ctx d st of Inl e \<Rightarrow> None | Inr st' \<Rightarrow> Some st')
          else None)"

definition tupleAt :: "DecodeCtx \<Rightarrow> byte list \<Rightarrow> OGRField list \<Rightarrow> nat \<Rightarrow> nat \<Rightarrow> bool" where
  "tupleAt ctx d raw0 k i =
     (case stateAt ctx d raw0 k of
        None \<Rightarrow> False
      | Some st \<Rightarrow> inLoop d st \<and> tagAt d st = i)"

definition storesValue ::
  "DecodeCtx \<Rightarrow> ColumnType list \<Rightarrow> byte list \<Rightarrow> OGRField list \<Rightarrow> nat \<Rightarrow> bool" where
  "storesValue ctx cols d raw0 k =
     (case stateAt ctx d raw0 k of
        None \<Rightarrow> False
      | Some st \<Rightarrow>
          let i = tagAt d st; off = fst st + 2 in
          \<not> isIgnored ctx i \<and>
          (cols ! i \<noteq> CT_DateTime \<or>
           parseDateField ctx (take (leNat d off 4) (drop (off + 4) d)) \<noteq> Unset))"

definition boolCtx :: "bool \<Rightarrow> DecodeCtx" where
  "boolCtx ign = \<lparr> columns = Some [CT_Bool], isIgnored = (\<lambda>i. ign), mallocOK = (\<lambda>n. True),
                   uint64ToDouble = word_of_nat, floatToDouble = ucast,
                   OGRParseDateTimeYYYYMMDDTHHMMSSZ = (\<lambda>s. None),
                   OGRParseDateTimeYYYYMMDDTHHMMSSsssZ = (\<lambda>s. None),
                   OGRParseDate = (\<lambda>s. None) \<rparr>"

definition twoBools :: "byte list" where
  "twoBools = [0, 0, 1, 0, 0, 0]"

section \<open>Vocabulary for the properties of the writer\<close>

definition noGeometry :: "OGRFeature \<Rightarrow> bool" where
  \<comment> \<open>the feature has no geometry, or an empty one\<close>
  "noGeometry f = (case GetGeometryRef f of None \<Rightarrow> True | Some g \<Rightarrow> IsEmpty g)"

definition typeMismatch :: "FGBLayer \<Rightarrow> OGRFeature \<Rightarrow> bool" where
  \<comment> \<open>the feature has a geometry whose type is not the type the layer declares\<close>
  "typeMismatch layer f =
     (case GetGeometryRef f of None \<Rightarrow> False | Some g \<Rightarrow> getGeometryType g \<noteq> m_eGType layer)"

definition rejected :: "FGBLayer \<Rightarrow> OGRErr \<times> FGBLayer \<Rightarrow> bool" where
  \<comment> \<open>the call fails and leaves the layer, its files included, as it was, the scratch
      buffer of the properties apart\<close>
  "rejected layer res =
     (fst res = OGRERR_FAILURE \<and> (snd res)\<lparr> m_writeProperties := m_writeProperties layer \<rparr> = layer)"

definition plainEnv :: WriteEnv where
  "plainEnv = \<lparr> feature_max_buffer_size = 2147483647, CPLIsUTF8 = (\<lambda>s. True),
       OGRGetISO8601DateTime = (\<lambda>f. []), doubleToFloat = ucast,
       reserveThrows = (\<lambda>n k. False), serializeThrows = False, emplaceThrows = False,
       geometryOffset = (\<lambda>g. 4),
       encodeFeature = (\<lambda>t z m g p. [1, 2, 3, 4]),
       encodeHeader = (\<lambda>h. [word_of_nat (features_count h), word_of_nat (index_node_size h)]),
       openFinal = Some 1000,
       secondPass = (\<lambda>l. (True, l)) \<rparr>"

definition newLayer :: "GeometryType \<Rightarrow> OGRwkbGeometryType \<Rightarrow> bool \<Rightarrow> FGBLayer" where
  \<comment> \<open>a layer as \<^verbatim>\<open>Create\<close> leaves it: no field, nothing written, an empty output file\<close>
  "newLayer gt egt idx =
     \<lparr> m_create = True, m_bCreateSpatialIndexAtClose = idx, m_osFilename = ''out.fgb'',
       m_osLayerName = ''out'', m_geometryType = gt, m_eGType = egt,
       m_hasZ = False, m_hasM = False, m_hasT = False, m_hasTM = False,
       m_fieldDefs = [], m_poSRS = None, m_titleDescMetadata = (None, None, None),
       m_featuresCount = 0, m_writeOffset = 0, m_offsetAfterHeader = 0,
       m_maxFeatureSize = 0, m_indexNodeSize = 0, m_sExtent = None, m_featureItems = [],
       m_writeProperties = [],
       m_poFpWrite = Some \<lparr> fileBytes = [], filePos = 0, fileRoom = 1000 \<rparr>,
       m_poFp = None, m_poHeader = None, m_offsetFeatures = 0, m_offset = 0 \<rparr>"

definition pointFeature :: OGRFeature where
  \<comment> \<open>a feature whose geometry is a point (\<^verbatim>\<open>wkbPoint\<close>, code 1)\<close>
  "pointFeature =
     \<lparr> rawFields = [],
       GetGeometryRef = Some \<lparr> getGeometryType = 1, IsEmpty = False, geomWkbSize = 21,
                               getEnvelope = Some \<lparr> MinX = 1, MinY = 2, MaxX = 1, MaxY = 2 \<rparr> \<rparr> \<rparr>"

definition bareFeature :: OGRFeature where
  "bareFeature = \<lparr> rawFields = [], GetGeometryRef = None \<rparr>"

definition emptyHeader :: "FGBLayer \<Rightarrow> Header" where
  \<comment> \<open>the header of a layer without features: feature count 0, no extent\<close>
  "emptyHeader layer =
     \<lparr> name = m_osLayerName layer, envelope = None, geometry_type = m_geometryType layer,
       has_z = m_hasZ layer, has_m = m_hasM layer, has_t = m_hasT layer, has_tm = m_hasTM layer,
       header_columns = writeColumns layer, features_count = 0,
       index_node_size = m_indexNodeSize layer, crs = m_poSRS layer,
       title = fst (m_titleDescMetadata layer),
       description = fst (snd (m_titleDescMetadata layer)),
       metadata = snd (snd (m_titleDescMetadata layer)) \<rparr>"

definition emptyFile :: "WriteEnv \<Rightarrow> FGBLayer \<Rightarrow> byte list" where
  \<comment> \<open>the magic and the size-prefixed header block, and nothing after them\<close>
  "emptyFile env layer = magicbytes @ FinishSizePrefixed (encodeHeader env (emptyHeader layer))"

definition finalBytes :: "FGBLayer \<Rightarrow> byte list" where
  \<comment> \<open>the bytes of the file behind \<^verbatim>\<open>m_poFp\<close>\<close>
  "finalBytes layer = (case m_poFp layer of None \<Rightarrow> [] | Some fp \<Rightarrow> fileBytes fp)"

definition reopened :: "byte list \<Rightarrow> VSILFILE" where
  \<comment> \<open>a handle on a file of the given bytes, opened for reading\<close>
  "reopened bs = \<lparr> fileBytes = bs, filePos = 0, fileRoom = 0 \<rparr>"

definition storageAccepts :: "WriteEnv \<Rightarrow> FGBLayer \<Rightarrow> bool" where
  \<comment> \<open>the final file can be created and takes the magic and the header\<close>
  "storageAccepts env layer =
     (case openFinal env of None \<Rightarrow> False | Some r \<Rightarrow> length (emptyFile env layer) \<le> r)"

definition readsBack :: "WriteEnv \<Rightarrow> ReadEnv \<Rightarrow> Header \<Rightarrow> bool" where
  \<comment> \<open>what is assumed of FlatBuffers and of the reader's environment for one header: its
      encoding is below the size limit, is allocated, verifies and decodes to the header\<close>
  "readsBack env renv h =
     (\<not> seekFails renv
      \<and> length (encodeHeader env h) \<le> header_max_buffer_size renv
      \<and> length (encodeHeader env h) < 2 ^ 32
      \<and> VSIMallocOK renv (length (encodeHeader env h))
      \<and> VerifyHeaderBuffer renv (encodeHeader env h)
      \<and> GetHeader renv (encodeHeader env h) = h)"

definition opensAs :: "FGBLayer option \<Rightarrow> Header \<Rightarrow> nat \<Rightarrow> bool" where
  \<comment> \<open>\<^verbatim>\<open>Open\<close> returns a layer, with the given header, no feature, no index, and the
      features starting at the given offset\<close>
  "opensAs res h off =
     (case res of
        None \<Rightarrow> False
      | Some l \<Rightarrow> m_poHeader l = Some h \<and> m_featuresCount l = 0 \<and> m_indexNodeSize l = 0
                  \<and> m_offsetFeatures l = off)"

definition plainReadEnv :: "Header \<Rightarrow> ReadEnv" where
  "plainReadEnv h =
     \<lparr> header_max_buffer_size = 10485760, seekFails = False, VSIMallocOK = (\<lambda>n. True),
       VerifyHeaderBuffer = (\<lambda>b. length b = 2), GetHeader = (\<lambda>b. h),
       PackedRTree_size = (\<lambda>n. if n = 0 then None else Some (40 * n)),
       wkbSetZ = (\<lambda>t. t + 1000), wkbSetM = (\<lambda>t. t + 2000) \<rparr>"

section \<open>Properties\<close>

text \<open>
  C10. A curve with fewer than two points, the empty curve included, is classified as
  clockwise: isClockwise returns TRUE.
\<close>

theorem isClockwise_degenerate:
  "nPointCount c < 2 \<Longrightarrow> isClockwise c = True"
  by (simp add: isClockwise_def)

theorem isClockwise_degenerate_witness:
  "nPointCount (mkCurve []) < 2 \<and> isClockwise (mkCurve []) = True
   \<and> nPointCount (mkCurve [(3, 4)]) < 2 \<and> isClockwise (mkCurve [(3, 4)]) = True"
  using isClockwise_degenerate [of "mkCurve []"] isClockwise_degenerate [of "mkCurve [(3, 4)]"]
  by (simp add: mkCurve_def)

lemma fold_add_sum:
  "fold (\<lambda>i s. s + f i) [a..<b] (s0::real) = s0 + (\<Sum>i = a..<b. f i)"
proof (induction b)
  case 0 show ?case by simp
next
  case (Suc b)
  show ?case
  proof (cases "a \<le> b")
    case True then show ?thesis using Suc by simp
  next
    case False then show ?thesis by simp
  qed
qed







lemma orient_rot: "orient a b c = orient b c a"
  by (simp add: orient_def algebra_simps)

lemma orient_sameXY: "sameXY c c' \<Longrightarrow> orient a b c = orient a b c'"
  by (simp add: orient_def sameXY_def)

lemma fanG_sum:
  "1 \<le> k \<Longrightarrow> fanG p k = (\<Sum>j = 1..<k. orient (p 0) (p j) (p (j + 1)))"
proof (induction k)
  case 0 then show ?case by simp
next
  case (Suc k)
  show ?case
  proof (cases "k = 0")
    case True then show ?thesis by (simp add: fanG_def)
  next
    case False
    then have k: "1 \<le> k" by simp
    have "fanG p (Suc k) = fanG p k + orient (p 0) (p k) (p (k + 1))"
      using k by (simp add: fanG_def greenTerm_def orient_def algebra_simps)
    then show ?thesis using Suc.IH[OF k] k by simp
  qed
qed

lemma greenSum_fan:
  assumes "3 \<le> n" "sameXY (p (n - 1)) (p 0)"
  shows "greenSum p n = (\<Sum>j = 1..<n - 2. orient (p 0) (p j) (p (j + 1)))"
proof -
  have r: "{1..<n - 1} = insert (n - 2) {1..<n - 2}" using assms(1) by auto
  have s: "(\<Sum>i = 1..<n - 1. greenTerm p i) = greenTerm p (n - 2) + (\<Sum>i = 1..<n - 2. greenTerm p i)"
    unfolding r by (subst sum.insert) auto
  have e: "n - 2 + 1 = n - 1" "n - 2 - 1 = n - 3" "n - 1 - 1 = n - 2" using assms(1) by auto
  define A where "A = (\<Sum>i = 1..<n - 2. greenTerm p i)"
  have g: "greenTerm p (n - 2) = px (p (n - 2)) * (py (p 0) - py (p (n - 3)))"
    using assms(2) by (simp only: greenTerm_def e sameXY_def)
  have "greenSum p n = px (p 0) * (py (p 1) - py (p 0))
          + (greenTerm p (n - 2) + A) + px (p 0) * (py (p 0) - py (p (n - 2)))"
    using assms(2) unfolding greenSum_def Let_def fold_add_sum s A_def sameXY_def
    by simp
  also have "\<dots> = fanG p (n - 2)"
    unfolding fanG_def g A_def e by (simp add: algebra_simps)
  finally have "greenSum p n = fanG p (n - 2)" .
  then show ?thesis using fanG_sum[of "n - 2" p] assms(1) by simp
qed












lemma sameXY_sym: "sameXY a b \<Longrightarrow> sameXY b a"
  by (simp add: sameXY_def)





























lemma accLen_0 [simp]: "accLen c 0 = 0"
  by (simp add: accLen_def)






















lemma memsetZero_length [simp]: "length (memsetZero z xs a k) = length xs"
  by (simp add: memsetZero_def)

lemma vsiRealloc_length:
  "vsiRealloc ok junk arr n = Some xs \<Longrightarrow> length xs = n"
  by (auto simp: vsiRealloc_def split: if_splits option.splits)

lemma zeroize_fields [simp]:
  "m_nPointCapacity (zeroize c n) = m_nPointCapacity c"
  "flag3D (zeroize c n) = flag3D c"
  "flagMeasured (zeroize c n) = flagMeasured c"
  by (simp_all add: zeroize_def Let_def)

lemma zeroize_planesAt: "planesAt c cap \<Longrightarrow> planesAt (zeroize c n) cap"
  by (auto simp: planesAt_def zeroize_def Let_def)

lemma growArrays_too_many:
  "INT_MAX div sizeofRawPoint < n \<Longrightarrow> growArrays env c n = (False, c)"
  by (simp add: growArrays_def)

lemma growArrays_ok:
  assumes "n \<le> INT_MAX div sizeofRawPoint" "okPoints env" "flag3D c \<longrightarrow> okZ env"
    "flagMeasured c \<longrightarrow> okM env"
  shows "\<exists>c'. growArrays env c n = (True, c') \<and> m_nPointCapacity c' = newCapacity c n
          \<and> planesAt c' (newCapacity c n) \<and> nPointCount c' = nPointCount c
          \<and> flag3D c' = flag3D c \<and> flagMeasured c' = flagMeasured c"
  using assms
  by (auto simp: growArrays_def Let_def vsiRealloc_def freeIfEmpty_def planesAt_def
      split: option.splits)

lemma growArrays_freed:
  "nPointCount c = 0 \<Longrightarrow> paoPoints c \<noteq> None \<Longrightarrow> n \<le> INT_MAX div sizeofRawPoint \<Longrightarrow>
   growArrays env c n = growArrays env (freedArrays c) n"
  by (auto simp: growArrays_def Let_def freeIfEmpty_def freedArrays_def newCapacity_def
      split: option.splits)

text \<open>
  C3, as amended. A call setNumPoints(n) that must grow the buffer (n above the capacity)
  fails and changes nothing when n exceeds INT_MAX / 16 = 134217727. Otherwise, when the
  reallocations it makes succeed, it returns true with n points, the new capacity is
  exactly n when the current point count is 0 (the first allocation included) or when
  n + n/3 would exceed 134217727, and n + n/3 otherwise, and every present plane (XY, and
  Z and M when flagged) has exactly that many cells. When the current point count is 0 and
  an XY array exists, the old arrays are freed before reallocating: the call behaves as on
  the curve with its three arrays freed and capacity 0.
\<close>

theorem setNumPoints_growth:
  assumes "m_nPointCapacity c < n"
  shows "(134217727 < n \<longrightarrow> setNumPoints env c n z = (False, c))
       \<and> (n \<le> 134217727 \<and> okPoints env \<and> (flag3D c \<longrightarrow> okZ env) \<and> (flagMeasured c \<longrightarrow> okM env)
            \<longrightarrow> fst (setNumPoints env c n z) = True
              \<and> nPointCount (snd (setNumPoints env c n z)) = n
              \<and> m_nPointCapacity (snd (setNumPoints env c n z))
                  = (if nPointCount c = 0 \<or> 134217727 < n + n div 3 then n else n + n div 3)
              \<and> planesAt (snd (setNumPoints env c n z))
                    (m_nPointCapacity (snd (setNumPoints env c n z))))
       \<and> (n \<le> 134217727 \<and> nPointCount c = 0 \<and> paoPoints c \<noteq> None
            \<longrightarrow> setNumPoints env c n z = setNumPoints env (freedArrays c) n z)"
proof -
  have lim: "INT_MAX div sizeofRawPoint = 134217727" by (simp add: INT_MAX_def sizeofRawPoint_def)
  have a: "setNumPoints env c n z = (False, c)" if "134217727 < n"
    using that assms by (simp add: setNumPoints_def growArrays_too_many lim)
  have cap: "newCapacity c n = (if nPointCount c = 0 \<or> 134217727 < n + n div 3 then n else n + n div 3)"
    by (auto simp: newCapacity_def lim)
  have b: "fst (setNumPoints env c n z) = True
         \<and> nPointCount (snd (setNumPoints env c n z)) = n
         \<and> m_nPointCapacity (snd (setNumPoints env c n z))
             = (if nPointCount c = 0 \<or> 134217727 < n + n div 3 then n else n + n div 3)
         \<and> planesAt (snd (setNumPoints env c n z)) (m_nPointCapacity (snd (setNumPoints env c n z)))"
    if h: "n \<le> 134217727" "okPoints env" "flag3D c \<longrightarrow> okZ env" "flagMeasured c \<longrightarrow> okM env"
  proof -
    define K where "K = newCapacity c n"
    obtain c' where c': "growArrays env c n = (True, c')" "m_nPointCapacity c' = K"
      "planesAt c' K"
      using growArrays_ok[of n env c] h lim by (auto simp: K_def)
    have p: "planesAt (zeroize c' n) K" using c'(3) by (rule zeroize_planesAt)
    have q: "\<And>d k. planesAt d k \<Longrightarrow> planesAt (d\<lparr> nPointCount := n \<rparr>) k" by (simp add: planesAt_def)
    have "fst (setNumPoints env c n z) = True
         \<and> nPointCount (snd (setNumPoints env c n z)) = n
         \<and> m_nPointCapacity (snd (setNumPoints env c n z)) = K
         \<and> planesAt (snd (setNumPoints env c n z)) K"
      using assms c' p q[OF p] q[OF c'(3)] by (simp add: setNumPoints_def Let_def)
    then show ?thesis unfolding K_def cap by simp
  qed
  have f: "setNumPoints env c n z = setNumPoints env (freedArrays c) n z"
    if "n \<le> 134217727" "nPointCount c = 0" "paoPoints c \<noteq> None"
  proof -
    have "growArrays env c n = growArrays env (freedArrays c) n"
      using that by (intro growArrays_freed) (simp_all add: lim)
    then show ?thesis using assms by (simp add: setNumPoints_def freedArrays_def)
  qed
  show ?thesis using a b f by blast
qed

theorem setNumPoints_growth_witness:
  "m_nPointCapacity (mkCurve [(1, 2), (3, 4), (5, 6)]) < 9
   \<and> fst (setNumPoints allOK (mkCurve [(1, 2), (3, 4), (5, 6)]) 9 True) = True
   \<and> nPointCount (snd (setNumPoints allOK (mkCurve [(1, 2), (3, 4), (5, 6)]) 9 True)) = 9
   \<and> m_nPointCapacity (snd (setNumPoints allOK (mkCurve [(1, 2), (3, 4), (5, 6)]) 9 True)) = 12"
  using setNumPoints_growth[of "mkCurve [(1, 2), (3, 4), (5, 6)]" 9 allOK True]
  by (simp add: mkCurve_def allOK_def)

text \<open>
  C3 as stated fails: on a curve that holds one point, setNumPoints(134217727) is not a
  first allocation, yet the new capacity is n = 134217727 and not n + n/3 = 178956969.
\<close>

theorem setNumPoints_capacity_counterexample:
  "m_nPointCapacity (mkCurve [(0, 0)]) < 134217727
   \<and> nPointCount (mkCurve [(0, 0)]) \<noteq> 0
   \<and> fst (setNumPoints allOK (mkCurve [(0, 0)]) 134217727 True) = True
   \<and> m_nPointCapacity (snd (setNumPoints allOK (mkCurve [(0, 0)]) 134217727 True)) = 134217727
   \<and> 134217727 + 134217727 div 3 = (178956969 :: nat)"
  by (simp add: setNumPoints_def growArrays_def newCapacity_def freeIfEmpty_def vsiRealloc_def
      mkCurve_def allOK_def INT_MAX_def sizeofRawPoint_def Let_def zeroize_def)

lemma fillLoop_props:
  "k \<le> nPointCount c \<Longrightarrow> length xyz0 = nPointCount c * 3 \<Longrightarrow>
   length (fillLoop c k xyz0) = nPointCount c * 3
   \<and> (\<forall>i<k. fillLoop c k xyz0 ! i = px (pt c i)
            \<and> fillLoop c k xyz0 ! (i + nPointCount c) = py (pt c i)
            \<and> fillLoop c k xyz0 ! (i + nPointCount c * 2)
                = (if padfZ c \<noteq> None then zOf c i else 0))"
proof (induction k)
  case 0
  then show ?case by (simp add: fillLoop_def)
next
  case (Suc k)
  define n where "n = nPointCount c"
  define ys where "ys = fillLoop c k xyz0"
  have k: "k < n" using Suc.prems(1) by (simp add: n_def)
  have ih: "length ys = n * 3"
    "\<And>i. i < k \<Longrightarrow> ys ! i = px (pt c i) \<and> ys ! (i + n) = py (pt c i)
        \<and> ys ! (i + n * 2) = (if padfZ c \<noteq> None then zOf c i else 0)"
    using Suc.IH Suc.prems by (auto simp: ys_def n_def)
  have step: "fillLoop c (Suc k) xyz0
      = ys[k := px (pt c k), k + n := py (pt c k),
           k + n * 2 := (if padfZ c \<noteq> None then zOf c k else 0)]"
    by (simp add: fillLoop_def ys_def n_def)
  show ?case
    unfolding step n_def[symmetric]
  proof (intro conjI allI impI)
    fix i assume i: "i < Suc k"
    show "ys[k := px (pt c k), k + n := py (pt c k),
             k + n * 2 := (if padfZ c \<noteq> None then zOf c k else 0)] ! i = px (pt c i)"
      using i k ih by (cases "i = k") (auto simp: nth_list_update)
    show "ys[k := px (pt c k), k + n := py (pt c k),
             k + n * 2 := (if padfZ c \<noteq> None then zOf c k else 0)] ! (i + n) = py (pt c i)"
      using i k ih by (cases "i = k") (auto simp: nth_list_update)
    show "ys[k := px (pt c k), k + n := py (pt c k),
             k + n * 2 := (if padfZ c \<noteq> None then zOf c k else 0)] ! (i + n * 2)
          = (if padfZ c \<noteq> None then zOf c i else 0)"
      using i k ih by (cases "i = k") (auto simp: nth_list_update)
  qed (simp add: ih)
qed

lemma planeTriples_fill:
  "planeTriples (fillXYZ c (replicate (nPointCount c * 3) v)) (nPointCount c) = inputTriples c"
proof -
  have f: "fillXYZ c (replicate (nPointCount c * 3) v)
         = fillLoop c (nPointCount c) (replicate (nPointCount c * 3) v)"
    by (simp add: fillXYZ_def fillLoop_def Let_def)
  show ?thesis
    unfolding f planeTriples_def inputTriples_def
    using fillLoop_props[of "nPointCount c" c "replicate (nPointCount c * 3) v"]
    by (intro map_cong) auto
qed

lemma Transform_props:
  assumes "Transform poCT n xyz = (xyz1, succ)"
  shows "length xyz1 = n * 3" "length succ = n"
    "\<And>i. i < n \<Longrightarrow> xyz1 ! i = fst (fst (poCT (planeTriples xyz n) i))"
    "\<And>i. i < n \<Longrightarrow> xyz1 ! (i + n) = fst (snd (fst (poCT (planeTriples xyz n) i)))"
    "\<And>i. i < n \<Longrightarrow> xyz1 ! (i + n * 2) = snd (snd (fst (poCT (planeTriples xyz n) i)))"
    "\<And>i. i < n \<Longrightarrow> succ ! i = snd (poCT (planeTriples xyz n) i)"
  using assms by (auto simp: Transform_def Let_def nth_append)

lemma filter_upt_length_le: "length (filter P [0..<k]) \<le> k"
  using length_filter_le[of P "[0..<k]"] by simp

lemma compactLoop_Suc:
  "compactLoop en n succ (Suc k) xyz1 = compactStep en n succ k (compactLoop en n succ k xyz1)"
  by (simp add: compactLoop_def)

lemma compactStep_success:
  assumes inv: "compactInv n succ xyz1 k (xyz, j)" and k: "k < n" and s: "succ ! k"
  shows "compactInv n succ xyz1 (Suc k)
           (xyz[j := xyz ! k, j + n := xyz ! (k + n), j + 2 * n := xyz ! (k + 2 * n)], j + 1)"
proof -
  define surv where "surv = filter (\<lambda>i. succ ! i) [0..<k]"
  have j: "j = length surv" and len: "length xyz = n * 3"
    and low: "\<And>m. m < j \<Longrightarrow> xyz ! m = xyz1 ! (surv ! m) \<and> xyz ! (m + n) = xyz1 ! (surv ! m + n)
               \<and> xyz ! (m + 2 * n) = xyz1 ! (surv ! m + 2 * n)"
    and high: "\<And>m. j \<le> m \<Longrightarrow> m < n \<Longrightarrow> xyz ! m = xyz1 ! m \<and> xyz ! (m + n) = xyz1 ! (m + n)
               \<and> xyz ! (m + 2 * n) = xyz1 ! (m + 2 * n)"
    using inv by (auto simp: compactInv_def Let_def surv_def)
  have jk: "j \<le> k" unfolding j surv_def by (rule filter_upt_length_le)
  have surv': "filter (\<lambda>i. succ ! i) [0..<Suc k] = surv @ [k]" using s by (simp add: surv_def)
  have at_k: "xyz ! k = xyz1 ! k" "xyz ! (k + n) = xyz1 ! (k + n)" "xyz ! (k + 2 * n) = xyz1 ! (k + 2 * n)"
    using high[OF jk k] by auto
  define ys where "ys = xyz[j := xyz ! k, j + n := xyz ! (k + n), j + 2 * n := xyz ! (k + 2 * n)]"
  have ylen: "length ys = n * 3" by (simp add: ys_def len)
  have jn: "j < n" using jk k by simp
  have y0: "\<And>m. m < n \<Longrightarrow> ys ! m = (if m = j then xyz1 ! k else xyz ! m)"
    using jn len by (auto simp: ys_def nth_list_update at_k)
  have y1: "\<And>m. m < n \<Longrightarrow> ys ! (m + n) = (if m = j then xyz1 ! (k + n) else xyz ! (m + n))"
    using jn len by (auto simp: ys_def nth_list_update at_k)
  have y2: "\<And>m. m < n \<Longrightarrow> ys ! (m + 2 * n) = (if m = j then xyz1 ! (k + 2 * n) else xyz ! (m + 2 * n))"
    using jn len by (auto simp: ys_def nth_list_update at_k)
  have lowS: "ys ! m = xyz1 ! ((surv @ [k]) ! m) \<and> ys ! (m + n) = xyz1 ! ((surv @ [k]) ! m + n)
               \<and> ys ! (m + 2 * n) = xyz1 ! ((surv @ [k]) ! m + 2 * n)" if "m < j + 1" for m
  proof (cases "m = j")
    case True
    then show ?thesis using jn y0[of m] y1[of m] y2[of m] by (simp add: nth_append j)
  next
    case False
    then have mj: "m < j" using that by simp
    then have "m < n" using jn by simp
    then show ?thesis using False mj y0[of m] y1[of m] y2[of m] low[OF mj] by (simp add: nth_append j)
  qed
  have highS: "ys ! m = xyz1 ! m \<and> ys ! (m + n) = xyz1 ! (m + n) \<and> ys ! (m + 2 * n) = xyz1 ! (m + 2 * n)"
    if "j + 1 \<le> m" "m < n" for m
    using that y0[of m] y1[of m] y2[of m] high[of m] by simp
  show ?thesis
    unfolding compactInv_def Let_def surv' ys_def[symmetric]
    using lowS highS ylen j by simp
qed

lemma compactStep_skip:
  assumes inv: "compactInv n succ xyz1 k (xyz, j)" and s: "\<not> succ ! k"
  shows "compactInv n succ xyz1 (Suc k) (xyz, j)"
  using assms by (simp add: compactInv_def Let_def)

lemma compactLoop_ok:
  "k \<le> n \<Longrightarrow> length xyz1 = n * 3 \<Longrightarrow> en \<or> (\<forall>i<k. succ ! i) \<Longrightarrow>
   \<exists>st. compactLoop en n succ k xyz1 = Some st \<and> compactInv n succ xyz1 k st"
proof (induction k)
  case 0
  then show ?case by (simp add: compactLoop_def compactInv_def)
next
  case (Suc k)
  then obtain xyz j where st: "compactLoop en n succ k xyz1 = Some (xyz, j)"
      "compactInv n succ xyz1 k (xyz, j)"
    by (metis Suc_leD less_Suc_eq prod.collapse)
  have k: "k < n" using Suc.prems(1) by simp
  show ?case
  proof (cases "succ ! k")
    case True
    then show ?thesis
      using compactStep_success[OF st(2) k True]
      unfolding compactLoop_Suc st(1) by (simp add: compactStep_def)
  next
    case False
    then have "en" using Suc.prems(3) by auto
    then show ?thesis
      using compactStep_skip[OF st(2) False] False
      unfolding compactLoop_Suc st(1) by (simp add: compactStep_def)
  qed
qed

lemma compactStep_None [simp]: "compactStep en n succ i None = None"
  by (simp add: compactStep_def)

lemma fold_compactStep_None [simp]: "fold (compactStep en n succ) is None = None"
  by (induction "is") simp_all

lemma compactLoop_fail:
  "\<not> en \<Longrightarrow> i < k \<Longrightarrow> \<not> succ ! i \<Longrightarrow> compactLoop en n succ k xyz1 = None"
proof (induction k)
  case 0
  then show ?case by simp
next
  case (Suc k)
  show ?case
  proof (cases "i = k")
    case True
    then show ?thesis using Suc.prems
      by (cases "compactLoop en n succ k xyz1") (auto simp: compactLoop_Suc compactStep_def)
  next
    case False
    then have "compactLoop en n succ k xyz1 = None" using Suc by simp
    then show ?thesis by (simp add: compactLoop_Suc)
  qed
qed

lemma assignXY_props:
  "k \<le> length ps \<Longrightarrow>
   length (assignXY X Y k ps) = length ps
   \<and> (\<forall>i<k. assignXY X Y k ps ! i = \<lparr> px = X ! i, py = Y ! i \<rparr>)"
proof (induction k)
  case 0
  then show ?case by (simp add: assignXY_def)
next
  case (Suc k)
  have step: "assignXY X Y (Suc k) ps = (assignXY X Y k ps)[k := \<lparr> px = X ! k, py = Y ! k \<rparr>]"
    by (simp add: assignXY_def)
  show ?case unfolding step using Suc by (auto simp: nth_list_update less_Suc_eq)
qed

lemma setNumPoints_shrink:
  "n \<le> m_nPointCapacity c \<Longrightarrow> setNumPoints env c n False = (True, c\<lparr> nPointCount := n \<rparr>)"
  by (simp add: setNumPoints_def)

lemma setPoints_shrink:
  assumes inv: "curveInv c" and j: "j \<le> nPointCount c"
    and z: "Zin = None \<longleftrightarrow> padfZ c = None"
    and zl: "\<And>zin. Zin = Some zin \<Longrightarrow> j \<le> length zin"
  shows "\<exists>r. setPoints env c j X Y Zin = (True, r) \<and> nPointCount r = j
          \<and> (\<forall>i<j. pt r i = \<lparr> px = X ! i, py = Y ! i \<rparr>)
          \<and> (\<forall>zin. Zin = Some zin \<longrightarrow> (\<forall>i<j. zOf r i = zin ! i))
          \<and> padfM r = padfM c \<and> flagMeasured r = flagMeasured c"
proof (cases "j = 0")
  case True
  show ?thesis
  proof (cases Zin)
    case None
    then show ?thesis using True inv
      by (simp add: setPoints_def Make2D_def setNumPoints_shrink Let_def)
  next
    case (Some zin)
    then have "padfZ c \<noteq> None" using z by simp
    then show ?thesis using True inv Some
      by (simp add: setPoints_def Make3D_def setNumPoints_shrink Let_def)
  qed
next
  case False
  then have "0 < m_nPointCapacity c" using j inv by (auto simp: curveInv_def)
  then obtain ps where ps: "paoPoints c = Some ps" "length ps = m_nPointCapacity c"
    using inv by (auto simp: curveInv_def split: option.splits)
  have jc: "j \<le> m_nPointCapacity c" "j \<le> length ps" using j inv ps by (auto simp: curveInv_def)
  note ax = assignXY_props[OF jc(2), of X Y]
  show ?thesis
  proof (cases Zin)
    case None
    then have "padfZ c = None" using z by simp
    then show ?thesis using None ps jc ax
      by (simp add: setPoints_def Make2D_def setNumPoints_shrink Let_def pt_def)
  next
    case (Some zin)
    then obtain zs where zs: "padfZ c = Some zs" using z by (cases "padfZ c") auto
    have "j \<le> length zin" using zl Some by simp
    then have "\<forall>i<j. memcpyInto zs zin j ! i = zin ! i"
      by (simp add: memcpyInto_def nth_append)
    then show ?thesis using Some zs ps jc ax False
      by (simp add: setPoints_def Make3D_def setNumPoints_shrink Let_def pt_def zOf_def)
  qed
qed

text \<open>
  What transform does with the per-point success flags of the coordinate transform. When
  partial reprojection is not enabled (the option is unset, or set to a value CPLTestBool
  rejects) and some point fails, it fails as a whole and leaves the curve as it was; when
  no point of a non-empty curve succeeds, it fails; and when it is enabled (or no point
  fails) and the scratch allocation succeeds, it succeeds, the failed points are dropped,
  and the X and Y (and the Z, when the curve has a Z array) of the surviving transformed
  points are at the front in their original relative order. The M array and the measured
  flag are left as they were.
\<close>

lemma transform_xyz:
  "(\<not> partialEnabled opt tb \<and> (\<exists>i<nPointCount c. \<not> okPt poCT c i)
      \<longrightarrow> fst (transform env opt tb poCT c) \<noteq> OGRERR_NONE \<and> snd (transform env opt tb poCT c) = c)
   \<and> (nPointCount c \<noteq> 0 \<and> (\<forall>i<nPointCount c. \<not> okPt poCT c i)
      \<longrightarrow> fst (transform env opt tb poCT c) \<noteq> OGRERR_NONE \<and> snd (transform env opt tb poCT c) = c)
   \<and> (curveInv c \<and> okScratch env \<and> (partialEnabled opt tb \<or> (\<forall>i<nPointCount c. okPt poCT c i))
        \<and> (nPointCount c = 0 \<or> (\<exists>i<nPointCount c. okPt poCT c i))
      \<longrightarrow> fst (transform env opt tb poCT c) = OGRERR_NONE
        \<and> nPointCount (snd (transform env opt tb poCT c)) = length (survivors poCT c)
        \<and> (\<forall>m<length (survivors poCT c).
              pt (snd (transform env opt tb poCT c)) m
                = \<lparr> px = fst (outPt poCT c (survivors poCT c ! m)),
                    py = fst (snd (outPt poCT c (survivors poCT c ! m))) \<rparr>
              \<and> (padfZ c \<noteq> None \<longrightarrow>
                    zOf (snd (transform env opt tb poCT c)) m
                      = snd (snd (outPt poCT c (survivors poCT c ! m)))))
        \<and> padfM (snd (transform env opt tb poCT c)) = padfM c
        \<and> flagMeasured (snd (transform env opt tb poCT c)) = flagMeasured c)"
proof -
  define n where "n = nPointCount c"
  define en where "en = partialEnabled opt tb"
  define xyz where "xyz = fillXYZ c (replicate (n * 3) (fresh env))"
  obtain xyz1 succ where T: "Transform poCT n xyz = (xyz1, succ)" by (cases "Transform poCT n xyz")
  have pt_in: "planeTriples xyz n = inputTriples c"
    unfolding xyz_def n_def by (rule planeTriples_fill)
  note tp = Transform_props[OF T, unfolded pt_in]
  have succ: "\<And>i. i < n \<Longrightarrow> succ ! i = okPt poCT c i" using tp(6) by (simp add: okPt_def)
  have surv: "filter (\<lambda>i. succ ! i) [0..<n] = survivors poCT c"
    unfolding survivors_def n_def[symmetric] by (rule filter_cong) (auto simp: succ)
  have unfold: "transform env opt tb poCT c =
     (if \<not> okScratch env then (OGRERR_NOT_ENOUGH_MEMORY, c)
      else case compactLoop en n succ n xyz1 of
             None \<Rightarrow> (OGRERR_FAILURE, c)
           | Some (xyz2, j) \<Rightarrow>
               if j = 0 \<and> n \<noteq> 0 then (OGRERR_FAILURE, c)
               else (OGRERR_NONE,
                     snd (setPoints env c j xyz2 (drop n xyz2)
                            (if padfZ c \<noteq> None then Some (drop (n * 2) xyz2) else None))))"
    by (simp add: transform_def Let_def n_def[symmetric] xyz_def[symmetric] T compactLoop_def en_def)
  have A: "fst (transform env opt tb poCT c) \<noteq> OGRERR_NONE \<and> snd (transform env opt tb poCT c) = c"
    if "\<not> en" "i < n" "\<not> okPt poCT c i" for i
  proof -
    have "compactLoop en n succ n xyz1 = None"
      using that succ[of i] by (intro compactLoop_fail[of en i]) auto
    then show ?thesis by (simp add: unfold)
  qed
  have B: "fst (transform env opt tb poCT c) \<noteq> OGRERR_NONE \<and> snd (transform env opt tb poCT c) = c"
    if "n \<noteq> 0" "\<forall>i<n. \<not> okPt poCT c i"
  proof (cases en)
    case False
    then show ?thesis using A[of 0] that by auto
  next
    case True
    then obtain st where st: "compactLoop en n succ n xyz1 = Some st"
        "compactInv n succ xyz1 n st"
      using compactLoop_ok[of n n xyz1 en succ] tp(1) by auto
    have "survivors poCT c = []" using that(2) by (auto simp: survivors_def n_def filter_empty_conv)
    then have "snd st = 0" using st(2) by (simp add: compactInv_def Let_def surv)
    then show ?thesis using st(1) that(1) by (cases st) (simp add: unfold)
  qed
  have C: "fst (transform env opt tb poCT c) = OGRERR_NONE
        \<and> nPointCount (snd (transform env opt tb poCT c)) = length (survivors poCT c)
        \<and> (\<forall>m<length (survivors poCT c).
              pt (snd (transform env opt tb poCT c)) m
                = \<lparr> px = fst (outPt poCT c (survivors poCT c ! m)),
                    py = fst (snd (outPt poCT c (survivors poCT c ! m))) \<rparr>
              \<and> (padfZ c \<noteq> None \<longrightarrow>
                    zOf (snd (transform env opt tb poCT c)) m
                      = snd (snd (outPt poCT c (survivors poCT c ! m)))))
        \<and> padfM (snd (transform env opt tb poCT c)) = padfM c
        \<and> flagMeasured (snd (transform env opt tb poCT c)) = flagMeasured c"
    if h: "curveInv c" "okScratch env" "en \<or> (\<forall>i<n. okPt poCT c i)" "n = 0 \<or> (\<exists>i<n. okPt poCT c i)"
  proof -
    have "en \<or> (\<forall>i<n. succ ! i)" using h(3) succ by auto
    then obtain xyz2 j where st: "compactLoop en n succ n xyz1 = Some (xyz2, j)"
        "compactInv n succ xyz1 n (xyz2, j)"
      using compactLoop_ok[of n n xyz1 en succ] tp(1) by auto
    define sv where "sv = survivors poCT c"
    have j: "j = length sv" and len2: "length xyz2 = n * 3"
      and low: "\<And>m. m < j \<Longrightarrow> xyz2 ! m = xyz1 ! (sv ! m) \<and> xyz2 ! (m + n) = xyz1 ! (sv ! m + n)
               \<and> xyz2 ! (m + 2 * n) = xyz1 ! (sv ! m + 2 * n)"
      using st(2) by (auto simp: compactInv_def Let_def surv sv_def)
    have svn: "\<And>m. m < j \<Longrightarrow> sv ! m < n"
    proof -
      fix m assume "m < j"
      then have "sv ! m \<in> set sv" using j by simp
      then show "sv ! m < n" by (auto simp: sv_def survivors_def n_def)
    qed
    have jn: "j \<le> n" unfolding j sv_def survivors_def n_def by (rule filter_upt_length_le)
    have j0: "\<not> (j = 0 \<and> n \<noteq> 0)"
    proof -
      have "sv \<noteq> []" if "n \<noteq> 0"
        using h(4) that by (auto simp: sv_def survivors_def n_def filter_empty_conv)
      then show ?thesis using j by auto
    qed
    define Zin where "Zin = (if padfZ c \<noteq> None then Some (drop (n * 2) xyz2) else None)"
    have zl: "\<And>zin. Zin = Some zin \<Longrightarrow> j \<le> length zin"
      using jn len2 by (auto simp: Zin_def split: if_splits)
    obtain r where r: "setPoints env c j xyz2 (drop n xyz2) Zin = (True, r)"
        "nPointCount r = j"
        "\<forall>i<j. pt r i = \<lparr> px = xyz2 ! i, py = drop n xyz2 ! i \<rparr>"
        "\<forall>zin. Zin = Some zin \<longrightarrow> (\<forall>i<j. zOf r i = zin ! i)"
        "padfM r = padfM c" "flagMeasured r = flagMeasured c"
    proof -
      have zc: "Zin = None \<longleftrightarrow> padfZ c = None" by (simp add: Zin_def)
      have jn': "j \<le> nPointCount c" using jn by (simp add: n_def)
      from setPoints_shrink[OF h(1) jn' zc zl, of env xyz2 "drop n xyz2"] that
      show ?thesis by blast
    qed
    have res: "transform env opt tb poCT c = (OGRERR_NONE, r)"
      using h(2) j0 r(1) by (simp add: unfold st(1) Zin_def)
    have pts: "pt r m = \<lparr> px = fst (outPt poCT c (sv ! m)), py = fst (snd (outPt poCT c (sv ! m))) \<rparr>"
      if m: "m < j" for m
    proof -
      have "drop n xyz2 ! m = xyz2 ! (m + n)" using m jn len2 by (simp add: add.commute)
      then show ?thesis
        using r(3) m low[OF m] tp(3)[OF svn[OF m]] tp(4)[OF svn[OF m]] by (simp add: outPt_def)
    qed
    have zz: "zOf r m = snd (snd (outPt poCT c (sv ! m)))" if m: "m < j" and z: "padfZ c \<noteq> None" for m
    proof -
      have "drop (n * 2) xyz2 ! m = xyz2 ! (m + 2 * n)" using m jn len2 by (simp add: add.commute mult.commute)
      moreover have "zOf r m = drop (n * 2) xyz2 ! m" using r(4) m z by (simp add: Zin_def)
      ultimately show ?thesis
        using low[OF m] tp(5)[OF svn[OF m]] by (simp add: outPt_def mult.commute)
    qed
    show ?thesis unfolding res sv_def[symmetric] using r(2,5,6) j pts zz by simp
  qed
  show ?thesis
    using A B C unfolding n_def en_def by blast
qed

text \<open>
  C2, at a measured curve. The curve holds the points (1,2), (3,4), (5,6) with the M
  values 100, 200, 300; partial reprojection is enabled and the coordinate transform
  fails on the first point only. transform succeeds and keeps two points: their X and Y
  are those of the transformed second and third point, and their M values are 100 and
  200, those of the first and second point of the input, where the surviving points
  carried 200 and 300. The M array is not compacted with X, Y and Z.
\<close>

theorem transform_measured_M:
  "fst (transform allOK (Some ''YES'') isYes (shiftCT [False, True, True]) measuredPts) = OGRERR_NONE
   \<and> nPointCount (snd (transform allOK (Some ''YES'') isYes (shiftCT [False, True, True]) measuredPts)) = 2
   \<and> pt (snd (transform allOK (Some ''YES'') isYes (shiftCT [False, True, True]) measuredPts)) 0
       = \<lparr> px = 13, py = 24 \<rparr>
   \<and> pt (snd (transform allOK (Some ''YES'') isYes (shiftCT [False, True, True]) measuredPts)) 1
       = \<lparr> px = 15, py = 26 \<rparr>
   \<and> flagMeasured (snd (transform allOK (Some ''YES'') isYes (shiftCT [False, True, True]) measuredPts))
   \<and> mOf measuredPts 1 = 200 \<and> mOf measuredPts 2 = 300
   \<and> mOf (snd (transform allOK (Some ''YES'') isYes (shiftCT [False, True, True]) measuredPts)) 0 = 100
   \<and> mOf (snd (transform allOK (Some ''YES'') isYes (shiftCT [False, True, True]) measuredPts)) 1 = 200"
proof -
  have inv: "curveInv measuredPts" by (simp add: curveInv_def measuredPts_def threePts_def mkCurve_def)
  have it: "inputTriples measuredPts = [(1, 2, 0), (3, 4, 0), (5, 6, 0)]"
    by (simp add: inputTriples_def measuredPts_def threePts_def mkCurve_def pt_def upt_conv_Cons
        numeral_3_eq_3)
  have n: "nPointCount measuredPts = 3" by (simp add: measuredPts_def threePts_def mkCurve_def)
  have ok: "okPt (shiftCT [False, True, True]) measuredPts 1"
    by (simp add: okPt_def it shiftCT_def)
  have sv: "survivors (shiftCT [False, True, True]) measuredPts = [1, 2]"
    by (simp add: survivors_def n upt_conv_Cons numeral_3_eq_3 okPt_def it shiftCT_def)
  have out: "outPt (shiftCT [False, True, True]) measuredPts (Suc 0) = (13, 24, 30)"
    "outPt (shiftCT [False, True, True]) measuredPts 2 = (15, 26, 30)"
    by (simp_all add: outPt_def it shiftCT_def)
  have en: "partialEnabled (Some ''YES'') isYes" by (simp add: partialEnabled_def isYes_def)
  have ex: "\<exists>i<nPointCount measuredPts. okPt (shiftCT [False, True, True]) measuredPts i"
    using ok n by (intro exI[of _ 1]) simp
  have sc: "okScratch allOK" by (simp add: allOK_def)
  have m: "padfM measuredPts = Some [100, 200, 300]" "flagMeasured measuredPts"
    by (simp_all add: measuredPts_def)
  note t = transform_xyz[of "Some ''YES''" isYes measuredPts "shiftCT [False, True, True]" allOK]
  have r: "fst (transform allOK (Some ''YES'') isYes (shiftCT [False, True, True]) measuredPts) = OGRERR_NONE
     \<and> nPointCount (snd (transform allOK (Some ''YES'') isYes (shiftCT [False, True, True]) measuredPts)) = 2
     \<and> pt (snd (transform allOK (Some ''YES'') isYes (shiftCT [False, True, True]) measuredPts)) 0
         = \<lparr> px = 13, py = 24 \<rparr>
     \<and> pt (snd (transform allOK (Some ''YES'') isYes (shiftCT [False, True, True]) measuredPts)) 1
         = \<lparr> px = 15, py = 26 \<rparr>
     \<and> padfM (snd (transform allOK (Some ''YES'') isYes (shiftCT [False, True, True]) measuredPts))
         = Some [100, 200, 300]
     \<and> flagMeasured (snd (transform allOK (Some ''YES'') isYes (shiftCT [False, True, True]) measuredPts))"
    using t inv sc en ex by (simp add: sv out m All_less_Suc)
  then show ?thesis by (simp add: mOf_def m)
qed

lemma needsSplit_P: "needsSplit c L i = needsSplitP L (pt c i) (pt c (i + 1))"
  by (simp add: needsSplit_def needsSplitP_def dfSquareDist_def sqDist_def dfX_def dfY_def)

lemma nInter_P: "nIntermediatePoints c L i = nInterP L (pt c i) (pt c (i + 1))"
  by (simp add: nIntermediatePoints_def nInterP_def dfSquareDist_def sqDist_def dfX_def dfY_def)



lemma DoubleToIntClamp_nonneg: "0 \<le> k \<Longrightarrow> 0 \<le> DoubleToIntClamp (of_int k)"
  by (simp add: DoubleToIntClamp_def)


lemma split_ratio_gt_one:
  assumes "0 < L" "D - L * L > REL_EPSILON_LENGTH_SQUARE * (L * L)"
  shows "1 < sqrt (D / (L * L))"
proof -
  have l2: "0 < L * L" using assms(1) by simp
  have "L * L < D" using assms(2) l2 by (simp add: REL_EPSILON_LENGTH_SQUARE_def)
  then have "1 < D / (L * L)" using l2 by (simp add: less_divide_eq)
  then show ?thesis by simp
qed

lemma nInterP_nonneg:
  assumes "0 < L" "needsSplitP L a b"
  shows "0 \<le> nInterP L a b"
proof -
  have "1 < sqrt (sqDist a b / (L * L))"
    using assms by (intro split_ratio_gt_one) (simp_all add: needsSplitP_def)
  then have "0 \<le> sqrt (sqDist a b / (L * L)) - REL_EPSILON_ROUND"
    unfolding REL_EPSILON_ROUND_def by linarith
  then have "0 \<le> \<lfloor>sqrt (sqDist a b / (L * L)) - REL_EPSILON_ROUND\<rfloor>"
    by (simp only: zero_le_floor of_int_0)
  then show ?thesis unfolding nInterP_def by (rule DoubleToIntClamp_nonneg)
qed




lemma fillStep_fst: "fst (fillStep c L i st) = fst st @ blockP c L i"
  by (cases st) (simp add: fillStep_def blockP_def Let_def)

lemma fold_fill_fst:
  "fst (fold (fillStep c L) [0..<k] st) = fst st @ concat (map (blockP c L) [0..<k])"
  by (induction k) (simp_all add: fillStep_fst)

lemma countStep_None [simp]: "countStep c L i None = None"
  by (simp add: countStep_def)

lemma countLoop_0 [simp]: "countLoop c L 0 = Some 0"
  by (simp add: countLoop_def)

lemma countLoop_Suc: "countLoop c L (Suc k) = countStep c L k (countLoop c L k)"
  by (simp add: countLoop_def)

lemma countPoints_countLoop: "countPoints c L = countLoop c L (nPointCount c)"
  by (simp add: countPoints_def countLoop_def)















lemma intermediates_length: "length (intermediates c L i) = nat (nIntermediatePoints c L i)"
  by (simp add: intermediates_def Let_def)




lemma fillLoopS_fst: "fst (fillLoopS c L k) = concat (map (blockP c L) [0..<k])"
  using fold_fill_fst[of c L k "([], [], [])"] by (simp add: fillLoopS_def)




lemma segmentizeBody_cases:
  "segmentizeBody env c L = (False, c)
   \<or> segmentizeBody env c L = (True, c)
   \<or> (\<exists>v. countPoints c L = Some v
        \<and> segmentizeBody env c L =
            (True, c\<lparr> paoPoints := Some (fst (fillLoopS c L (nPointCount c))),
                       nPointCount := length (fst (fillLoopS c L (nPointCount c))),
                       m_nPointCapacity := length (fst (fillLoopS c L (nPointCount c))),
                       padfZ := (if padfZ c \<noteq> None
                                 then Some (fst (snd (fillLoopS c L (nPointCount c)))) else None),
                       padfM := (if padfM c \<noteq> None
                                 then Some (snd (snd (fillLoopS c L (nPointCount c)))) else None) \<rparr>))"
  by (auto simp: segmentizeBody_def fillLoopS_def split: option.splits prod.splits)



lemma newCurve_pts [simp]:
  "paoPoints (newCurve c L) = Some (concat (map (blockP c L) [0..<nPointCount c]))"
  "nPointCount (newCurve c L) = length (concat (map (blockP c L) [0..<nPointCount c]))"
  by (simp_all add: newCurve_def fillLoopS_fst)

























lemma blockP_length:
  assumes "0 < L"
  shows "int (length (blockP c L k))
       = 1 + (if k \<noteq> nPointCount c - 1 \<and> needsSplit c L k then nIntermediatePoints c L k else 0)"
proof (cases "k \<noteq> nPointCount c - 1 \<and> needsSplit c L k")
  case False
  then show ?thesis by (auto simp: blockP_def)
next
  case True
  then have "0 \<le> nIntermediatePoints c L k"
    using nInterP_nonneg[OF assms, of "pt c k" "pt c (k + 1)"] by (simp add: needsSplit_P nInter_P)
  then show ?thesis using True by (simp add: blockP_def intermediates_length)
qed

lemma countLoop_in_sync:
  assumes "0 < L"
  shows "countLoop c L k = Some v \<Longrightarrow> v = int (length (concat (map (blockP c L) [0..<k])))"
proof (induction k arbitrary: v)
  case 0
  then show ?case by simp
next
  case (Suc k)
  obtain w where w: "countLoop c L k = Some w"
    using Suc.prems by (cases "countLoop c L k") (auto simp: countLoop_Suc)
  have ih: "w = int (length (concat (map (blockP c L) [0..<k])))" using Suc.IH[OF w] .
  have "countStep c L k (Some w) = Some v" using Suc.prems by (simp add: countLoop_Suc w)
  then have "v = w + 1 + (if k \<noteq> nPointCount c - 1 \<and> needsSplit c L k
                           then nIntermediatePoints c L k else 0)"
    by (auto simp: countStep_def split: if_splits)
  then show ?case using ih blockP_length[OF assms, of c k] by simp
qed

lemma second_pass_in_sync:
  assumes "0 < L" "countPoints c L = Some v"
  shows "int (nPointCount (newCurve c L)) = v"
  using countLoop_in_sync[OF assms(1), of c "nPointCount c" v] assms(2)
  by (simp add: countPoints_countLoop)

subsection \<open>The property stream of parseFeature\<close>

lemma parseTuple_oob:
  assumes "inLoop d st" "columns ctx = Some cols" "length cols \<le> tagAt d st"
  shows "parseTuple ctx d st = Inl OGRERR_CORRUPT_DATA"
  using assms by (simp add: parseTuple_def inLoop_def tagAt_def Let_def)

lemma parseTuple_set:
  assumes "inLoop d st" "columns ctx = Some cols" "snd st ! tagAt d st \<noteq> Unset"
  shows "parseTuple ctx d st = Inl OGRERR_CORRUPT_DATA"
  using assms by (simp add: parseTuple_def inLoop_def tagAt_def Let_def)

lemma fixedField_set: "fixedWidth t = Some w \<Longrightarrow> fixedField ctx t d off \<noteq> Unset"
  by (cases t) (simp_all add: fixedWidth_def fixedField_def)

lemma fixedWidth_DateTime: "fixedWidth CT_DateTime = None"
  by (simp add: fixedWidth_def)

lemma parseValue_stores:
  assumes "parseValue ctx d t i off raw = Inr st'" "\<not> isIgnored ctx i" "i < length raw"
    "t \<noteq> CT_DateTime \<or> parseDateField ctx (take (leNat d off 4) (drop (off + 4) d)) \<noteq> Unset"
  shows "snd st' ! i \<noteq> Unset"
proof (cases "fixedWidth t")
  case (Some w)
  then have "t \<noteq> CT_DateTime" using fixedWidth_DateTime by auto
  with assms Some show ?thesis
    by (auto simp: parseValue_def Let_def fixedField_set split: if_splits)
next
  case None
  with assms show ?thesis
    by (auto simp: parseValue_def Let_def split: if_splits)
qed

lemma parseValue_keeps:
  assumes "parseValue ctx d t i off raw = Inr st'"
  shows "length (snd st') = length raw \<and> (\<forall>j. j \<noteq> i \<longrightarrow> snd st' ! j = raw ! j)"
  using assms by (auto simp: parseValue_def Let_def split: if_splits option.splits)

lemma parseTuple_Inr:
  assumes "parseTuple ctx d st = Inr st'"
  shows "\<exists>cols. columns ctx = Some cols \<and> tagAt d st < length cols \<and>
           snd st ! tagAt d st = Unset \<and>
           parseValue ctx d (cols ! tagAt d st) (tagAt d st) (fst st + 2) (snd st) = Inr st'"
  using assms by (auto simp: parseTuple_def tagAt_def Let_def split: if_splits option.splits)

lemma parseTuple_keeps:
  assumes "parseTuple ctx d st = Inr st'"
  shows "length (snd st') = length (snd st)"
    and "snd st ! j \<noteq> Unset \<Longrightarrow> snd st' ! j \<noteq> Unset"
proof -
  from parseTuple_Inr[OF assms] obtain cols where
    c: "snd st ! tagAt d st = Unset"
       "parseValue ctx d (cols ! tagAt d st) (tagAt d st) (fst st + 2) (snd st) = Inr st'"
    by blast
  from parseValue_keeps[OF c(2)] show "length (snd st') = length (snd st)" by simp
  assume j: "snd st ! j \<noteq> Unset"
  with c(1) have "j \<noteq> tagAt d st" by auto
  with parseValue_keeps[OF c(2)] j show "snd st' ! j \<noteq> Unset" by simp
qed

lemma stateAt_Suc_Some:
  assumes "stateAt ctx d raw0 (Suc k) = Some st'"
  shows "\<exists>st. stateAt ctx d raw0 k = Some st \<and> inLoop d st \<and> parseTuple ctx d st = Inr st'"
  using assms by (auto split: option.splits if_splits sum.splits)

lemma stateAt_length:
  "stateAt ctx d raw0 k = Some st \<Longrightarrow> length (snd st) = length raw0"
proof (induction k arbitrary: st)
  case 0 then show ?case by auto
next
  case (Suc k)
  from stateAt_Suc_Some[OF Suc.prems] obtain s where
    s: "stateAt ctx d raw0 k = Some s" "parseTuple ctx d s = Inr st" by blast
  from Suc.IH[OF s(1)] parseTuple_keeps(1)[OF s(2)] show ?case by simp
qed

lemma stateAt_keeps:
  assumes "stateAt ctx d raw0 k1 = Some st1" "snd st1 ! j \<noteq> Unset" "k1 \<le> k2"
    "stateAt ctx d raw0 k2 = Some st2"
  shows "snd st2 ! j \<noteq> Unset"
  using assms(3,4)
proof (induction k2 arbitrary: st2)
  case 0 with assms show ?case by auto
next
  case (Suc k)
  show ?case
  proof (cases "k1 = Suc k")
    case True with assms Suc.prems show ?thesis by auto
  next
    case False
    with Suc.prems have le: "k1 \<le> k" by simp
    from stateAt_Suc_Some[OF Suc.prems(2)] obtain s where
      s: "stateAt ctx d raw0 k = Some s" "parseTuple ctx d s = Inr st2" by blast
    from Suc.IH[OF le s(1)] parseTuple_keeps(2)[OF s(2)] show ?thesis by simp
  qed
qed

lemma stateAt_prefix:
  "stateAt ctx d raw0 k2 = Some st2 \<Longrightarrow> k1 \<le> k2 \<Longrightarrow> \<exists>st1. stateAt ctx d raw0 k1 = Some st1"
proof (induction k2 arbitrary: st2)
  case 0 then show ?case by auto
next
  case (Suc k)
  show ?case
  proof (cases "k1 = Suc k")
    case True with Suc.prems show ?thesis by auto
  next
    case False
    with Suc.prems have le: "k1 \<le> k" by simp
    from stateAt_Suc_Some[OF Suc.prems(1)] obtain s where "stateAt ctx d raw0 k = Some s" by blast
    from Suc.IH[OF this le] show ?thesis .
  qed
qed

lemma parseLoop_stateAt:
  "stateAt ctx d raw0 k = Some st \<Longrightarrow> parseLoop ctx d (0, raw0) = parseLoop ctx d st"
proof (induction k arbitrary: st)
  case 0 then show ?case by simp
next
  case (Suc k)
  from stateAt_Suc_Some[OF Suc.prems] obtain s where
    s: "stateAt ctx d raw0 k = Some s" "inLoop d s" "parseTuple ctx d s = Inr st" by blast
  have "parseLoop ctx d s = parseLoop ctx d st"
    using s(2,3) by (subst parseLoop.simps) (simp add: inLoop_def)
  with Suc.IH[OF s(1)] show ?case by simp
qed

lemma parseLoop_fails:
  assumes "stateAt ctx d raw0 k = Some st" "inLoop d st" "parseTuple ctx d st = Inl e"
  shows "parseProperties ctx (Some d) raw0 = Inl e"
proof -
  have "parseLoop ctx d st = Inl e"
    using assms(2,3) by (subst parseLoop.simps) (simp add: inLoop_def)
  with parseLoop_stateAt[OF assms(1)] have "parseLoop ctx d (0, raw0) = Inl e" by simp
  moreover have "\<not> (length d > 0 \<and> length d < 2 + 1) \<or> e = CPLErrorInvalidSize"
  proof (cases "length d < 3")
    case False then show ?thesis by simp
  next
    case True
    with assms(2) have "fst st = 0" "length d = 2" by (auto simp: inLoop_def)
    then have "parseTuple ctx d st \<noteq> Inl e \<or> e = OGRERR_CORRUPT_DATA"
      by (auto simp: parseTuple_def Let_def CPLErrorInvalidSize_def parseValue_def
          split: option.splits if_splits)
    with assms(3) show ?thesis by (simp add: CPLErrorInvalidSize_def)
  qed
  ultimately show ?thesis by (auto simp: parseProperties_def)
qed

text \<open>
  C1, as amended. With the raw fields of the feature as many as the declared columns:
  when the property stream carries the same column index in two tuples and the first of
  them stores its value (its field is not ignored and, for a DateTime column, the value
  parses), decoding fails with OGRERR_CORRUPT_DATA at the second tuple, so the first value
  is never written over; and a tuple whose column index is at least the number of
  declared columns fails with OGRERR_CORRUPT_DATA.
\<close>

theorem parseFeature_duplicate:
  assumes "columns ctx = Some cols" "length raw0 = length cols"
  shows "(tupleAt ctx d raw0 k1 i \<and> tupleAt ctx d raw0 k2 i \<and> k1 < k2 \<and>
          storesValue ctx cols d raw0 k1
            \<longrightarrow> parseProperties ctx (Some d) raw0 = Inl OGRERR_CORRUPT_DATA)
       \<and> (tupleAt ctx d raw0 k j \<and> length cols \<le> j
            \<longrightarrow> parseProperties ctx (Some d) raw0 = Inl OGRERR_CORRUPT_DATA)"
proof (intro conjI impI)
  assume h: "tupleAt ctx d raw0 k j \<and> length cols \<le> j"
  then obtain st where st: "stateAt ctx d raw0 k = Some st" "inLoop d st" "tagAt d st = j"
    by (auto simp: tupleAt_def split: option.splits)
  from parseTuple_oob[OF st(2) assms(1)] st(3) h
  have "parseTuple ctx d st = Inl OGRERR_CORRUPT_DATA" by simp
  from parseLoop_fails[OF st(1,2) this]
  show "parseProperties ctx (Some d) raw0 = Inl OGRERR_CORRUPT_DATA" .
next
  assume h: "tupleAt ctx d raw0 k1 i \<and> tupleAt ctx d raw0 k2 i \<and> k1 < k2 \<and>
             storesValue ctx cols d raw0 k1"
  then obtain st1 st2 where
    st1: "stateAt ctx d raw0 k1 = Some st1" "inLoop d st1" "tagAt d st1 = i" and
    st2: "stateAt ctx d raw0 k2 = Some st2" "inLoop d st2" "tagAt d st2 = i"
    by (auto simp: tupleAt_def split: option.splits)
  from h have lt: "Suc k1 \<le> k2" by simp
  from stateAt_prefix[OF st2(1) lt] obtain s where s: "stateAt ctx d raw0 (Suc k1) = Some s"
    by blast
  from stateAt_Suc_Some[OF s] st1(1) have pt: "parseTuple ctx d st1 = Inr s" by simp
  from parseTuple_Inr[OF pt] assms(1) st1(3) have
    il: "i < length cols" and
    pv: "parseValue ctx d (cols ! i) i (fst st1 + 2) (snd st1) = Inr s" by auto
  from stateAt_length[OF st1(1)] assms(2) il have ir: "i < length (snd st1)" by simp
  from h st1(1,3) have ni: "\<not> isIgnored ctx i" and
    dt: "cols ! i \<noteq> CT_DateTime \<or>
         parseDateField ctx (take (leNat d (fst st1 + 2) 4) (drop (fst st1 + 2 + 4) d)) \<noteq> Unset"
    by (auto simp: storesValue_def Let_def)
  from parseValue_stores[OF pv ni ir dt] have "snd s ! i \<noteq> Unset" .
  from stateAt_keeps[OF s this lt st2(1)] have "snd st2 ! i \<noteq> Unset" .
  with st2(3) have "snd st2 ! tagAt d st2 \<noteq> Unset" by simp
  from parseTuple_set[OF st2(2) assms(1) this]
  have "parseTuple ctx d st2 = Inl OGRERR_CORRUPT_DATA" .
  from parseLoop_fails[OF st2(1,2) this]
  show "parseProperties ctx (Some d) raw0 = Inl OGRERR_CORRUPT_DATA" .
qed

lemmas pf_eval = parseProperties_def parseLoop.simps parseTuple_def parseValue_def boolCtx_def
  leNat_def fixedWidth_def fixedField_def Let_def tupleAt_def storesValue_def inLoop_def
  tagAt_def twoBools_def CPLErrorInvalidSize_def

theorem parseFeature_duplicate_witness:
  "columns (boolCtx False) = Some [CT_Bool] \<and> length [Unset] = length [CT_Bool] \<and>
   tupleAt (boolCtx False) twoBools [Unset] 0 0 \<and> tupleAt (boolCtx False) twoBools [Unset] 1 0 \<and>
   (0::nat) < 1 \<and> storesValue (boolCtx False) [CT_Bool] twoBools [Unset] 0 \<and>
   tupleAt (boolCtx False) [1, 0, 7] [Unset] 0 1 \<and> length [CT_Bool] \<le> (1::nat) \<and>
   parseProperties (boolCtx False) (Some twoBools) [Unset] = Inl OGRERR_CORRUPT_DATA \<and>
   parseProperties (boolCtx False) (Some [1, 0, 7]) [Unset] = Inl OGRERR_CORRUPT_DATA"
  using parseFeature_duplicate[where ctx = "boolCtx False" and cols = "[CT_Bool]"
      and ?raw0.0 = "[Unset]" and d = twoBools and ?k1.0 = 0 and i = 0 and ?k2.0 = 1]
    parseFeature_duplicate[where ctx = "boolCtx False" and cols = "[CT_Bool]"
      and ?raw0.0 = "[Unset]" and d = "[1, 0, 7]" and k = 0 and j = 1]
  by (simp add: pf_eval)

text \<open>
  C1 as stated fails: with column 0 of type Bool flagged as ignored, the stream of two
  tuples that both carry column index 0 decodes without error, the field left unset.
\<close>

theorem parseFeature_duplicate_counterexample:
  "tupleAt (boolCtx True) twoBools [Unset] 0 0 \<and> tupleAt (boolCtx True) twoBools [Unset] 1 0 \<and>
   parseProperties (boolCtx True) (Some twoBools) [Unset] = Inr [Unset]"
  by (simp add: pf_eval)

subsection \<open>The guards of ICreateFeature\<close>

lemma leBytes_length: "length (leBytes w n) = w"
  by (induction w arbitrary: n) simp_all

lemma scratch_restored:
  "(layer\<lparr> m_writeProperties := p \<rparr>)\<lparr> m_writeProperties := m_writeProperties layer \<rparr> = layer"
  by simp

lemma rejected_same: "rejected layer (OGRERR_FAILURE, layer)"
  by (simp add: rejected_def)

lemma rejected_scratch: "rejected layer (OGRERR_FAILURE, layer\<lparr> m_writeProperties := p \<rparr>)"
  by (simp add: rejected_def)

lemma ICreateFeature_no_geometry:
  assumes "m_bCreateSpatialIndexAtClose layer" "noGeometry f"
  shows "rejected layer (ICreateFeature env layer f)"
proof (cases "m_create layer")
  case False
  then show ?thesis by (simp add: ICreateFeature_def rejected_same)
next
  case True
  obtain ok p where wp: "writeProperties env layer f = (ok, p)" by (cases "writeProperties env layer f")
  from assms(2) have ng: "(case GetGeometryRef f of None \<Rightarrow> True | Some g \<Rightarrow> IsEmpty g)"
    by (simp add: noGeometry_def)
  have "ICreateFeature env layer f = (OGRERR_FAILURE, layer\<lparr> m_writeProperties := p \<rparr>)"
    using True wp ng assms(1) by (simp add: ICreateFeature_def Let_def)
  then show ?thesis by (simp only: rejected_scratch)
qed

lemma ICreateFeature_mismatch:
  assumes "typeMismatch layer f" "m_geometryType layer \<noteq> GT_Unknown"
  shows "rejected layer (ICreateFeature env layer f)"
proof (cases "m_create layer")
  case False
  then show ?thesis by (simp add: ICreateFeature_def rejected_same)
next
  case True
  obtain ok p where wp: "writeProperties env layer f = (ok, p)" by (cases "writeProperties env layer f")
  from assms(1) obtain g where g: "GetGeometryRef f = Some g" "getGeometryType g \<noteq> m_eGType layer"
    by (auto simp: typeMismatch_def split: option.splits)
  have "ICreateFeature env layer f = (OGRERR_FAILURE, layer\<lparr> m_writeProperties := p \<rparr>)"
    using True wp g assms(2) by (simp add: ICreateFeature_def Let_def)
  then show ?thesis by (simp only: rejected_scratch)
qed

text \<open>
  C8, as amended. When spatial indexing was requested and the feature has no geometry (or
  an empty one), ICreateFeature returns OGRERR_FAILURE and writes nothing: the layer and
  its files are as before, the scratch buffer of the properties apart. The same holds when
  the feature has a geometry whose type is not the geometry type of the layer and the
  layer declares a geometry type other than Unknown.
\<close>

theorem ICreateFeature_rejects:
  "(m_bCreateSpatialIndexAtClose layer \<and> noGeometry f
      \<longrightarrow> rejected layer (ICreateFeature env layer f))
   \<and> (typeMismatch layer f \<and> m_geometryType layer \<noteq> GT_Unknown
      \<longrightarrow> rejected layer (ICreateFeature env layer f))"
  using ICreateFeature_no_geometry ICreateFeature_mismatch by blast

lemmas icf_eval = ICreateFeature_def writeFeature_def writeProperties_def writeHeader_def
  VSIFWriteL_def FinishSizePrefixed_def SupportsSeekWhileWriting_def Merge_def magicbytes_def
  writeColumns_def rejected_def noGeometry_def typeMismatch_def plainEnv_def newLayer_def
  pointFeature_def bareFeature_def Let_def leBytes_length

theorem ICreateFeature_rejects_witness:
  "m_bCreateSpatialIndexAtClose (newLayer GT_Polygon 3 True) \<and> noGeometry bareFeature
   \<and> typeMismatch (newLayer GT_Polygon 3 True) pointFeature
   \<and> m_geometryType (newLayer GT_Polygon 3 True) \<noteq> GT_Unknown
   \<and> rejected (newLayer GT_Polygon 3 True)
        (ICreateFeature plainEnv (newLayer GT_Polygon 3 True) bareFeature)
   \<and> rejected (newLayer GT_Polygon 3 True)
        (ICreateFeature plainEnv (newLayer GT_Polygon 3 True) pointFeature)"
  using ICreateFeature_rejects[of "newLayer GT_Polygon 3 True" bareFeature plainEnv]
    ICreateFeature_rejects[of "newLayer GT_Polygon 3 True" pointFeature plainEnv]
  by (simp add: noGeometry_def typeMismatch_def newLayer_def pointFeature_def bareFeature_def)

text \<open>
  C8 as stated fails: on a layer whose declared geometry type is Unknown (wkbUnknown,
  code 0), a feature with a point geometry (wkbPoint, code 1) has a geometry type that
  differs from the declared one, and ICreateFeature accepts and writes it.
\<close>

theorem ICreateFeature_mismatch_counterexample:
  "typeMismatch (newLayer GT_Unknown 0 False) pointFeature
   \<and> fst (ICreateFeature plainEnv (newLayer GT_Unknown 0 False) pointFeature) = OGRERR_NONE
   \<and> m_featuresCount (snd (ICreateFeature plainEnv (newLayer GT_Unknown 0 False) pointFeature)) = 1"
  by (simp add: icf_eval)

subsection \<open>CreateFinalFile on a layer without features, and Open on its file\<close>

lemma leNat_leBytes_aux:
  "n < 256 ^ w \<Longrightarrow> foldr (\<lambda>b acc. unat b + 256 * acc) (leBytes w n) 0 = n"
proof (induction w arbitrary: n)
  case 0
  then show ?case by simp
next
  case (Suc w)
  from Suc.prems have d: "n div 256 < 256 ^ w" by (simp add: less_mult_imp_div_less mult.commute)
  have u: "unat (word_of_nat (n mod 256) :: byte) = n mod 256"
    by (simp add: unat_of_nat take_bit_eq_mod)
  show ?case using Suc.IH[OF d] u by simp
qed

lemma leNat_leBytes:
  assumes "n < 2 ^ 32"
  shows "leNat (leBytes 4 n) 0 4 = n"
proof -
  have "n < 256 ^ 4" using assms by simp
  from leNat_leBytes_aux[OF this] show ?thesis
    by (simp add: leNat_def leBytes_length)
qed

lemma VSIFWriteL_all:
  assumes "length buf \<le> fileRoom fp" "filePos fp = length (fileBytes fp)"
  shows "VSIFWriteL buf 1 (length buf) fp =
           (length buf, \<lparr> fileBytes = fileBytes fp @ buf, filePos = length (fileBytes fp) + length buf,
                          fileRoom = fileRoom fp - length buf \<rparr>)"
  using assms by (simp add: VSIFWriteL_def Let_def min_def)

lemma VSIFWriteL_item:
  assumes "length buf \<le> fileRoom fp" "filePos fp = length (fileBytes fp)" "0 < length buf"
  shows "VSIFWriteL buf (length buf) 1 fp =
           (1, \<lparr> fileBytes = fileBytes fp @ buf, filePos = length (fileBytes fp) + length buf,
                 fileRoom = fileRoom fp - length buf \<rparr>)"
  using assms by (simp add: VSIFWriteL_def Let_def min_def)

lemma writeHeader_empty:
  assumes "length (emptyFile env layer) \<le> r"
  shows "snd (writeHeader env layer \<lparr> fileBytes = [], filePos = 0, fileRoom = r \<rparr> 0 None)
           = \<lparr> fileBytes = emptyFile env layer, filePos = length (emptyFile env layer),
               fileRoom = r - length (emptyFile env layer) \<rparr>"
proof -
  let ?buf = "FinishSizePrefixed (encodeHeader env (emptyHeader layer))"
  let ?fp0 = "\<lparr> fileBytes = [], filePos = 0, fileRoom = r \<rparr>"
  let ?fp1 = "\<lparr> fileBytes = magicbytes, filePos = length magicbytes,
                 fileRoom = r - length magicbytes \<rparr>"
  from assms have r: "length magicbytes + length ?buf \<le> r" by (simp add: emptyFile_def)
  have w1: "VSIFWriteL magicbytes (length magicbytes) (Suc 0) ?fp0 = (Suc 0, ?fp1)"
    using VSIFWriteL_item[of magicbytes ?fp0] r by (simp add: magicbytes_def)
  have w2: "VSIFWriteL ?buf (Suc 0) (length ?buf) ?fp1 =
              (length ?buf, \<lparr> fileBytes = magicbytes @ ?buf,
                               filePos = length magicbytes + length ?buf,
                               fileRoom = r - length magicbytes - length ?buf \<rparr>)"
    using VSIFWriteL_all[of ?buf ?fp1] r by simp
  have h: "\<lparr> name = m_osLayerName layer, envelope = None, geometry_type = m_geometryType layer,
             has_z = m_hasZ layer, has_m = m_hasM layer, has_t = m_hasT layer,
             has_tm = m_hasTM layer, header_columns = writeColumns layer, features_count = 0,
             index_node_size = m_indexNodeSize layer, crs = m_poSRS layer,
             title = fst (m_titleDescMetadata layer),
             description = fst (snd (m_titleDescMetadata layer)),
             metadata = snd (snd (m_titleDescMetadata layer)) \<rparr> = emptyHeader layer"
    by (simp add: emptyHeader_def)
  have wc: "writeColumns (layer\<lparr> m_writeOffset := k \<rparr>) = writeColumns layer" for k
    by (simp add: writeColumns_def)
  show ?thesis
    by (simp add: writeHeader_def w1 wc h w2 emptyFile_def Let_def)
qed


lemma emptyFile_poFp: "emptyFile env (layer\<lparr> m_poFp := x \<rparr>) = emptyFile env layer"
  by (simp add: emptyFile_def emptyHeader_def writeColumns_def)

lemma writeHeader_poFp:
  "m_poFp (fst (writeHeader env layer fp n e)) = m_poFp layer"
  by (simp add: writeHeader_def Let_def split: prod.splits)

lemma CreateFinalFile_empty_result:
  assumes "m_bCreateSpatialIndexAtClose layer" "m_featuresCount layer = 0"
    "storageAccepts env layer"
  shows "fst (CreateFinalFile env layer)"
    and "finalBytes (snd (CreateFinalFile env layer)) = emptyFile env layer"
proof -
  from assms(3) obtain r where r: "openFinal env = Some r" "length (emptyFile env layer) \<le> r"
    by (auto simp: storageAccepts_def split: option.splits)
  let ?fp = "\<lparr> fileBytes = [], filePos = 0, fileRoom = r \<rparr>"
  let ?l0 = "layer\<lparr> m_poFp := Some ?fp \<rparr>"
  obtain l1 fp1 where w: "writeHeader env ?l0 ?fp 0 None = (l1, fp1)"
    by (cases "writeHeader env ?l0 ?fp 0 None")
  have "length (emptyFile env ?l0) \<le> r" using r(2) by (simp only: emptyFile_poFp)
  from writeHeader_empty[OF this] w have fp1: "fileBytes fp1 = emptyFile env layer"
    by (simp add: emptyFile_poFp)
  have c: "CreateFinalFile env layer = (True, l1\<lparr> m_poFp := Some fp1 \<rparr>)"
    using assms(1,2) r(1) w by (simp add: CreateFinalFile_def Let_def)
  show "fst (CreateFinalFile env layer)" by (simp add: c)
  show "finalBytes (snd (CreateFinalFile env layer)) = emptyFile env layer"
    by (simp add: c finalBytes_def fp1)
qed

lemma magic_length: "length magicbytes = 8"
  by (simp add: magicbytes_def)

lemma Open_header_only:
  assumes "readsBack env renv h" "index_node_size h = 0" "features_count h = 0"
  shows "Open renv fn (reopened (magicbytes @ FinishSizePrefixed (encodeHeader env h))) v
           = Some (readLayer renv h fn
                     \<lparr> fileBytes = magicbytes @ FinishSizePrefixed (encodeHeader env h),
                       filePos = length (magicbytes @ FinishSizePrefixed (encodeHeader env h)),
                       fileRoom = 0 \<rparr>
                     (length (magicbytes @ FinishSizePrefixed (encodeHeader env h))))"
proof -
  let ?body = "encodeHeader env h"
  let ?file = "magicbytes @ FinishSizePrefixed ?body"
  from assms(1) have rb: "\<not> seekFails renv" "length ?body \<le> header_max_buffer_size renv"
    "length ?body < 2 ^ 32" "VSIMallocOK renv (length ?body)" "VerifyHeaderBuffer renv ?body"
    "GetHeader renv ?body = h"
    by (simp_all add: readsBack_def)
  let ?fp0 = "VSIFSeekL (reopened ?file) (length magicbytes)"
  let ?fp1 = "\<lparr> fileBytes = ?file, filePos = length magicbytes + 4, fileRoom = 0 \<rparr>"
  let ?fp2 = "\<lparr> fileBytes = ?file, filePos = length ?file, fileRoom = 0 \<rparr>"
  have r1: "VSIFReadL 4 1 ?fp0 = (leBytes 4 (length ?body), 1, ?fp1)"
    by (simp add: VSIFReadL_def VSIFSeekL_def reopened_def FinishSizePrefixed_def Let_def
        leBytes_length)
  have r2: "VSIFReadL (Suc 0) (length ?body) ?fp1 = (?body, length ?body, ?fp2)"
    by (simp add: VSIFReadL_def FinishSizePrefixed_def Let_def leBytes_length)
  have sz: "leNat (leBytes 4 (length ?body)) 0 4 = length ?body"
    using leNat_leBytes[OF rb(3)] .
  have lim: "\<not> (0::nat) > min (18446744073709551615 div 8) (100 * 1000 * 1000 * 1000)" by simp
  have len: "length magicbytes + (4 + length ?body) = length ?file"
    by (simp add: FinishSizePrefixed_def leBytes_length)
  show ?thesis
    unfolding Open_def Let_def
    by (simp only: rb(1) if_False r1 prod.case)
       (simp add: sz rb r2 assms(2,3) len not_less)
qed

text \<open>
  C9. Let spatial indexing be enabled on a layer to which no feature was written, whose
  index node size is still 0 (the source sets it only in the second pass), and let the
  storage create the final file and accept the magic and the header. Then
  CreateFinalFile succeeds and the final file holds the magic and one size-prefixed
  header with feature count 0 and no extent, and nothing after it: no index block, no
  feature. When the header block reads back (it verifies and decodes to the header
  written), Open on a file of these bytes returns a layer: feature count 0, index node
  size 0, and the features start at the end of the file.
\<close>

theorem CreateFinalFile_empty_layer:
  assumes "m_bCreateSpatialIndexAtClose layer" "m_featuresCount layer = 0"
    "m_indexNodeSize layer = 0" "storageAccepts env layer"
    "readsBack env renv (emptyHeader layer)"
  shows "fst (CreateFinalFile env layer)
       \<and> finalBytes (snd (CreateFinalFile env layer)) = emptyFile env layer
       \<and> features_count (emptyHeader layer) = 0
       \<and> envelope (emptyHeader layer) = None
       \<and> opensAs (Open renv fn (reopened (emptyFile env layer)) v)
            (emptyHeader layer) (length (emptyFile env layer))"
proof -
  note c = CreateFinalFile_empty_result[OF assms(1,2,4)]
  have i: "index_node_size (emptyHeader layer) = 0" using assms(3) by (simp add: emptyHeader_def)
  have f: "features_count (emptyHeader layer) = 0" by (simp add: emptyHeader_def)
  have e: "envelope (emptyHeader layer) = None" by (simp add: emptyHeader_def)
  have o: "Open renv fn (reopened (emptyFile env layer)) v
             = Some (readLayer renv (emptyHeader layer) fn
                       \<lparr> fileBytes = emptyFile env layer,
                         filePos = length (emptyFile env layer), fileRoom = 0 \<rparr>
                       (length (emptyFile env layer)))"
    using Open_header_only[OF assms(5) i f] by (simp only: emptyFile_def)
  show ?thesis
    by (simp add: c o f e i readLayer_def opensAs_def)
qed

lemmas cff_eval = storageAccepts_def readsBack_def emptyFile_def emptyHeader_def plainEnv_def
  plainReadEnv_def newLayer_def FinishSizePrefixed_def magicbytes_def writeColumns_def
  leBytes_length

theorem CreateFinalFile_empty_layer_witness:
  "m_bCreateSpatialIndexAtClose (newLayer GT_Point 1 True)
   \<and> m_featuresCount (newLayer GT_Point 1 True) = 0
   \<and> m_indexNodeSize (newLayer GT_Point 1 True) = 0
   \<and> storageAccepts plainEnv (newLayer GT_Point 1 True)
   \<and> readsBack plainEnv (plainReadEnv (emptyHeader (newLayer GT_Point 1 True)))
        (emptyHeader (newLayer GT_Point 1 True))
   \<and> fst (CreateFinalFile plainEnv (newLayer GT_Point 1 True))
   \<and> finalBytes (snd (CreateFinalFile plainEnv (newLayer GT_Point 1 True)))
        = emptyFile plainEnv (newLayer GT_Point 1 True)
   \<and> length (emptyFile plainEnv (newLayer GT_Point 1 True)) = 14
   \<and> opensAs
        (Open (plainReadEnv (emptyHeader (newLayer GT_Point 1 True))) ''out.fgb''
           (reopened (emptyFile plainEnv (newLayer GT_Point 1 True))) True)
        (emptyHeader (newLayer GT_Point 1 True))
        (length (emptyFile plainEnv (newLayer GT_Point 1 True)))"
  using CreateFinalFile_empty_layer[of "newLayer GT_Point 1 True" plainEnv
      "plainReadEnv (emptyHeader (newLayer GT_Point 1 True))" "''out.fgb''" True]
  by (simp add: cff_eval)

end
